theory Spec2Isabelle
  imports Complex_Main
begin

section \<open>Python values and built-ins\<close>

text \<open>
  Python exceptions are values of type \<open>error\<close>; a function that can raise returns
  \<open>error + 'a\<close>, with \<open>Inl\<close> for the exception. Strings are ASCII strings.
\<close>

datatype error =
    TypeError | KeyError | ValueError | ZeroDivisionError
  | DuplicateKeyError | JSONDecodeError | ConnectionError

text \<open>A JSON value as Python sees it after parsing. An object keeps its members as an
  association list; the first pair of a key is the one a lookup finds.\<close>

datatype json =
    JNull | JBool bool | JNum int | JFloat rat | JStr string
  | JArr "json list" | JObj "(string \<times> json) list"

text \<open>\<open>len(x)\<close>: defined on strings, arrays and objects; TypeError on the rest.\<close>

fun py_len :: "json \<Rightarrow> error + nat" where
  "py_len (JStr s) = Inr (length s)"
| "py_len (JArr xs) = Inr (length xs)"
| "py_len (JObj kvs) = Inr (length (remdups (map fst kvs)))"
| "py_len _ = Inl TypeError"

text \<open>\<open>x[key]\<close> with a string key: the member of an object, KeyError when the object lacks
  it, TypeError on every other kind of value.\<close>

fun py_getitem :: "json \<Rightarrow> string \<Rightarrow> error + json" where
  "py_getitem (JObj kvs) key = (case map_of kvs key of None \<Rightarrow> Inl KeyError | Some v \<Rightarrow> Inr v)"
| "py_getitem _ key = Inl TypeError"

text \<open>A request payload that is a JSON object: \<open>len(d)\<close> counts its keys, \<open>key in d\<close> and
  \<open>d[key]\<close> look a key up.\<close>

definition dict_len :: "(string \<times> 'v) list \<Rightarrow> nat" where
  "dict_len d = length (remdups (map fst d))"

definition dict_has :: "(string \<times> 'v) list \<Rightarrow> string \<Rightarrow> bool" where
  "dict_has d key = (map_of d key \<noteq> None)"

definition dict_get :: "(string \<times> 'v) list \<Rightarrow> string \<Rightarrow> error + 'v" where
  "dict_get d key = (case map_of d key of None \<Rightarrow> Inl KeyError | Some v \<Rightarrow> Inr v)"

text \<open>The truth value of a JSON value, as \<open>if not x\<close> tests it: \<open>None\<close>, \<open>False\<close>, zero, and
  the empty string, array and object are false.\<close>

fun py_truthy :: "json \<Rightarrow> bool" where
  "py_truthy JNull = False"
| "py_truthy (JBool b) = b"
| "py_truthy (JNum n) = (n \<noteq> 0)"
| "py_truthy (JFloat r) = (r \<noteq> 0)"
| "py_truthy (JStr s) = (s \<noteq> [])"
| "py_truthy (JArr xs) = (xs \<noteq> [])"
| "py_truthy (JObj kvs) = (kvs \<noteq> [])"

text \<open>\<open>x == y\<close> on JSON values: numbers and booleans compare by value (\<open>True == 1 == 1.0\<close>),
  arrays element by element, objects member by member whatever their order.\<close>

fun num_value :: "json \<Rightarrow> rat option" where
  "num_value (JNum n) = Some (of_int n)"
| "num_value (JFloat r) = Some r"
| "num_value (JBool b) = Some (if b then 1 else 0)"
| "num_value _ = None"

fun py_eq :: "json \<Rightarrow> json \<Rightarrow> bool" where
  "py_eq (JArr xs) (JArr ys) = list_all2 py_eq xs ys"
| "py_eq (JObj a) (JObj b) =
     (length (remdups (map fst a)) = length (remdups (map fst b))
      \<and> list_all (\<lambda>(k, v). map_of a k \<noteq> Some v
                     \<or> (case map_of b k of None \<Rightarrow> False | Some w \<Rightarrow> py_eq v w)) a)"
| "py_eq (JStr s) (JStr t) = (s = t)"
| "py_eq JNull JNull = True"
| "py_eq x y = (case (num_value x, num_value y) of (Some p, Some q) \<Rightarrow> p = q | _ \<Rightarrow> False)"

text \<open>\<open>key in x\<close> for a string \<open>key\<close>: a key of an object, an element of an array, a
  substring of a string; TypeError on the values that are not containers.\<close>

fun contains_substring :: "string \<Rightarrow> string \<Rightarrow> bool" where
  "contains_substring key [] = (key = [])"
| "contains_substring key (ch # cs) =
     (take (length key) (ch # cs) = key \<or> contains_substring key cs)"

fun py_contains :: "json \<Rightarrow> string \<Rightarrow> error + bool" where
  "py_contains (JObj kvs) key = Inr (map_of kvs key \<noteq> None)"
| "py_contains (JArr xs) key = Inr (list_ex (\<lambda>x. py_eq x (JStr key)) xs)"
| "py_contains (JStr s) key = Inr (contains_substring key s)"
| "py_contains _ key = Inl TypeError"

subsection \<open>\<open>int(x)\<close> and \<open>str(n)\<close>\<close>

text \<open>
  A path parameter reaches the handlers as a string; \<open>delete_book\<close> passes an integer on
  to \<open>get_book\<close>, which converts once more. Hence an identifier is either of the two.
\<close>

datatype ident = IdStr string | IdInt int

definition is_space :: "char \<Rightarrow> bool" where
  "is_space ch = (let n = (of_char ch :: nat) in (9 \<le> n \<and> n \<le> 13) \<or> (28 \<le> n \<and> n \<le> 32))"

definition is_digit :: "char \<Rightarrow> bool" where
  "is_digit ch = (let n = (of_char ch :: nat) in 48 \<le> n \<and> n \<le> 57)"

definition digit_val :: "char \<Rightarrow> int" where
  "digit_val ch = int (of_char ch) - 48"

text \<open>
  The digits of an integer literal: at least one digit, single underscores allowed between
  digits only. The flag tells whether the previous character was a digit.
\<close>

fun parse_digits :: "int \<Rightarrow> bool \<Rightarrow> string \<Rightarrow> int option" where
  "parse_digits acc prev [] = (if prev then Some acc else None)"
| "parse_digits acc prev (ch # cs) =
     (if is_digit ch then parse_digits (10 * acc + digit_val ch) True cs
      else if ch = CHR ''_'' \<and> prev then parse_digits acc False cs
      else None)"

definition strip :: "string \<Rightarrow> string" where
  "strip s = rev (dropWhile is_space (rev (dropWhile is_space s)))"

text \<open>\<open>int(s)\<close> in base 10: surrounding whitespace is dropped, one sign is allowed, then the
  digits; anything else raises ValueError.\<close>

definition int_of_string :: "string \<Rightarrow> error + int" where
  "int_of_string s =
     (case strip s of
        [] \<Rightarrow> Inl ValueError
      | ch # cs \<Rightarrow>
          (if ch = CHR ''-'' then
             (case parse_digits 0 False cs of None \<Rightarrow> Inl ValueError | Some n \<Rightarrow> Inr (- n))
           else if ch = CHR ''+'' then
             (case parse_digits 0 False cs of None \<Rightarrow> Inl ValueError | Some n \<Rightarrow> Inr n)
           else
             (case parse_digits 0 False (ch # cs) of None \<Rightarrow> Inl ValueError | Some n \<Rightarrow> Inr n)))"

fun py_int :: "ident \<Rightarrow> error + int" where
  "py_int (IdInt n) = Inr n"
| "py_int (IdStr s) = int_of_string s"

text \<open>\<open>str(n)\<close>: the decimal digits, with a minus sign for a negative number.\<close>

definition digit_char :: "nat \<Rightarrow> char" where
  "digit_char d = char_of (48 + d)"

function digits_of :: "nat \<Rightarrow> string" where
  "digits_of n = (if n < 10 then [digit_char n] else digits_of (n div 10) @ [digit_char (n mod 10)])"
  by pat_completeness auto
termination
  by (relation "measure (\<lambda>n. n)") auto

definition py_str :: "int \<Rightarrow> string" where
  "py_str n = (if n < 0 then CHR ''-'' # digits_of (nat (- n)) else digits_of (nat n))"

text \<open>Sequencing of computations that can raise.\<close>

definition and_then :: "error + 'a \<Rightarrow> ('a \<Rightarrow> error + 'b) \<Rightarrow> error + 'b" where
  "and_then m f = (case m of Inl e \<Rightarrow> Inl e | Inr x \<Rightarrow> f x)"

text \<open>A list comprehension \<open>[x for x in xs if p(x)]\<close> whose test can raise: the elements
  are tested in order and the first exception ends the comprehension.\<close>

fun filter_raising :: "('a \<Rightarrow> error + bool) \<Rightarrow> 'a list \<Rightarrow> error + 'a list" where
  "filter_raising p [] = Inr []"
| "filter_raising p (x # xs) =
     (case p x of
        Inl e \<Rightarrow> Inl e
      | Inr b \<Rightarrow>
          (case filter_raising p xs of
             Inl e \<Rightarrow> Inl e
           | Inr ys \<Rightarrow> Inr (if b then x # ys else ys)))"

text \<open>\<open>[f(x) for x in xs]\<close> with an \<open>f\<close> that can raise.\<close>

fun map_raising :: "('a \<Rightarrow> error + 'b) \<Rightarrow> 'a list \<Rightarrow> error + 'b list" where
  "map_raising f [] = Inr []"
| "map_raising f (x # xs) =
     (case f x of
        Inl e \<Rightarrow> Inl e
      | Inr y \<Rightarrow>
          (case map_raising f xs of
             Inl e \<Rightarrow> Inl e
           | Inr ys \<Rightarrow> Inr (y # ys)))"

text \<open>\<open>any(p(x) for x in xs)\<close>: stops at the first element that satisfies \<open>p\<close>, so an
  exception is raised only when it comes before such an element.\<close>

fun any_raising :: "('a \<Rightarrow> error + bool) \<Rightarrow> 'a list \<Rightarrow> error + bool" where
  "any_raising p [] = Inr False"
| "any_raising p (x # xs) =
     (case p x of
        Inl e \<Rightarrow> Inl e
      | Inr b \<Rightarrow> (if b then Inr True else any_raising p xs))"

text \<open>The reply of a handler: \<open>jsonify({"error": msg}), code\<close> or \<open>jsonify(x), code\<close>.\<close>

datatype 'a reply = Error_reply string nat | Ok_reply 'a nat

fun status :: "'a reply \<Rightarrow> nat" where
  "status (Error_reply msg code) = code"
| "status (Ok_reply x code) = code"

section \<open>The persisted store\<close>

text \<open>
  Both services keep their records in a MongoDB collection. A collection is modelled as
  the list of its documents in natural (insertion) order, each paired with its integer
  \<open>_id\<close>. A document of the book or loan collection is either the reserved counter
  document \<open>{"highest_object_id": k}\<close> or a record of the service.
\<close>

datatype 'a entry = Counter int | Doc 'a

type_synonym 'a collection = "(int \<times> 'a entry) list"

text \<open>\<open>find_one({"_id": n})\<close>: the first document with that \<open>_id\<close>, or \<open>None\<close>.\<close>

definition find_one :: "(int \<times> 'd) list \<Rightarrow> int \<Rightarrow> 'd option" where
  "find_one c n = map_of c n"

text \<open>\<open>update_one({"_id": n}, ...)\<close>: changes the first document with that \<open>_id\<close>, if any.\<close>

fun update_one :: "(int \<times> 'd) list \<Rightarrow> int \<Rightarrow> ('d \<Rightarrow> 'd) \<Rightarrow> (int \<times> 'd) list" where
  "update_one [] n f = []"
| "update_one ((i, d) # c) n f = (if i = n then (i, f d) # c else (i, d) # update_one c n f)"

text \<open>\<open>delete_one({"_id": n})\<close>: removes the first document with that \<open>_id\<close>, if any.\<close>

fun delete_one :: "(int \<times> 'd) list \<Rightarrow> int \<Rightarrow> (int \<times> 'd) list" where
  "delete_one [] n = []"
| "delete_one ((i, d) # c) n = (if i = n then c else (i, d) # delete_one c n)"

text \<open>\<open>insert_one\<close>: MongoDB refuses a second document with the same \<open>_id\<close>.\<close>

definition insert_one :: "(int \<times> 'd) list \<Rightarrow> int \<Rightarrow> 'd \<Rightarrow> error + (int \<times> 'd) list" where
  "insert_one c n d = (if n \<in> fst ` set c then Inl DuplicateKeyError else Inr (c @ [(n, d)]))"

text \<open>\<open>find({"_id": {"$gt": 0}}, {"_id": 0})\<close>: the documents with a positive \<open>_id\<close>,
  in order, without the \<open>_id\<close> field.\<close>

definition find_gt0 :: "(int \<times> 'd) list \<Rightarrow> 'd list" where
  "find_gt0 c = map snd (filter (\<lambda>(i, d). i > 0) c)"

text \<open>
  The start-up code of both services: when no document has \<open>_id = 0\<close>, an upsert with
  \<open>$setOnInsert\<close> creates the counter document with value 0.
\<close>

definition init_counter :: "'a collection \<Rightarrow> 'a collection" where
  "init_counter c = (if find_one c 0 = None then c @ [(0, Counter 0)] else c)"

section \<open>The identifier allocator\<close>

text \<open>
  \<open>$set: {"highest_object_id": k}\<close> on a document. On the counter document it replaces the
  value. (\<open>increment_id\<close> reaches the update only after it has read that field from the
  same document, so the other case is not reached from there.)
\<close>

fun set_highest_object_id :: "int \<Rightarrow> 'a entry \<Rightarrow> 'a entry" where
  "set_highest_object_id k (Counter _) = Counter k"
| "set_highest_object_id k (Doc d) = Doc d"

text \<open>
  \<open>find_one({"_id": 0})["highest_object_id"]\<close>: subscripting \<open>None\<close> raises TypeError, a
  document without the field raises KeyError.
\<close>

definition read_highest_object_id :: "'a collection \<Rightarrow> error + int" where
  "read_highest_object_id c =
     (case find_one c 0 of
        None \<Rightarrow> Inl TypeError
      | Some (Doc _) \<Rightarrow> Inl KeyError
      | Some (Counter k) \<Rightarrow> Inr k)"

text \<open>
  \<open>BookClub.increment_id\<close> and \<open>LoansService.increment_id\<close> (the same code on the book and
  on the loan collection): read the counter, add 1, write it back, return it.
\<close>

definition increment_id :: "'a collection \<Rightarrow> error + (int \<times> 'a collection)" where
  "increment_id c =
     (case read_highest_object_id c of
        Inl e \<Rightarrow> Inl e
      | Inr k \<Rightarrow>
          (let current_key = k + 1
           in Inr (current_key, update_one c 0 (set_highest_object_id current_key))))"

text \<open>A sequence of allocations, one after the other: the identifiers handed out, in order,
  and the store afterwards.\<close>

fun allocate_seq :: "nat \<Rightarrow> 'a collection \<Rightarrow> error + (int list \<times> 'a collection)" where
  "allocate_seq 0 c = Inr ([], c)"
| "allocate_seq (Suc n) c =
     (case increment_id c of
        Inl e \<Rightarrow> Inl e
      | Inr (k, c') \<Rightarrow>
          (case allocate_seq n c' of
             Inl e \<Rightarrow> Inl e
           | Inr (ks, c'') \<Rightarrow> Inr (k # ks, c'')))"

text \<open>A collection as the services build it: records at positive identifiers, the counter
  document at a non-positive one.\<close>

definition wf_collection :: "'a collection \<Rightarrow> bool" where
  "wf_collection c = list_all (\<lambda>(i, e). case e of Counter k \<Rightarrow> i \<le> 0 | Doc l \<Rightarrow> i > 0) c"

section \<open>Allocations by several callers\<close>

text \<open>
  \<open>increment_id\<close> talks to the store twice: \<open>find_one\<close> reads the counter, \<open>update_one\<close>
  writes the incremented value. Each of the two calls is one operation of the store, and
  between them the caller holds \<open>current_key\<close> in a local variable. A caller is therefore
  at one of four points: before the read, between the read and the write (holding
  \<open>current_key\<close>), returned with its identifier, or stopped by an exception.
\<close>

datatype alloc_pc = Start | Has_read int | Returned int | Raised error

definition alloc_step :: "'a collection \<Rightarrow> alloc_pc \<Rightarrow> 'a collection \<times> alloc_pc" where
  "alloc_step c pc =
     (case pc of
        Start \<Rightarrow>
          (case read_highest_object_id c of
             Inl e \<Rightarrow> (c, Raised e)
           | Inr k \<Rightarrow> (c, Has_read (k + 1)))
      | Has_read current_key \<Rightarrow>
          (update_one c 0 (set_highest_object_id current_key), Returned current_key)
      | Returned k \<Rightarrow> (c, Returned k)
      | Raised e \<Rightarrow> (c, Raised e))"

text \<open>
  A schedule names, step by step, the caller that performs its next store operation.
  The state is the shared collection and the point each caller is at.
\<close>

fun run_schedule ::
  "nat list \<Rightarrow> 'a collection \<times> alloc_pc list \<Rightarrow> 'a collection \<times> alloc_pc list" where
  "run_schedule [] s = s"
| "run_schedule (i # sched) (c, pcs) =
     (if i < length pcs
      then (case alloc_step c (pcs ! i) of
              (c', pc') \<Rightarrow> run_schedule sched (c', pcs[i := pc']))
      else run_schedule sched (c, pcs))"

text \<open>The schedule in which the callers run one after the other, in the given order: each
  caller's read is followed at once by its own write.\<close>

definition serial :: "nat list \<Rightarrow> nat list" where
  "serial order = concat (map (\<lambda>i. [i, i]) order)"

section \<open>The book service (persistent version)\<close>

text \<open>
  A book document has the fields \<open>id, title, ISBN, genre, authors, publisher,
  publishedDate\<close>, all strings; a rating document has \<open>id, values, average, title\<close>.
  The average is Python's quotient \<open>sum(values) / len(values)\<close>; it is kept as the exact
  rational number the quotient denotes.
\<close>

record book =
  book_id :: string
  book_title :: string
  book_ISBN :: string
  book_genre :: string
  book_authors :: string
  book_publisher :: string
  book_publishedDate :: string

record rating =
  rating_id :: string
  rating_values :: "int list"
  rating_average :: rat
  rating_title :: string

text \<open>The two collections of the book service. Only the book collection holds a counter
  document; the rating collection holds rating documents only.\<close>

record book_db =
  book_collection :: "book collection"
  rating_collection :: "(int \<times> rating) list"

definition REQUIRED_FIELDS :: "string list" where
  "REQUIRED_FIELDS =
     [''title'', ''ISBN'', ''genre'', ''authors'', ''publisher'', ''publishedDate'', ''id'']"

definition GENRES :: "string list" where
  "GENRES = [''Fiction'', ''Children'', ''Biography'', ''Science'', ''Science Fiction'',
             ''Fantasy'', ''Other'']"

text \<open>\<open>book[field]\<close> on a document read from the book collection. The counter document has
  none of the fields the handlers ask for.\<close>

fun book_getitem :: "book entry \<Rightarrow> string \<Rightarrow> error + string" where
  "book_getitem (Counter k) field = Inl KeyError"
| "book_getitem (Doc b) field =
     (if field = ''id'' then Inr (book_id b)
      else if field = ''title'' then Inr (book_title b)
      else if field = ''ISBN'' then Inr (book_ISBN b)
      else if field = ''genre'' then Inr (book_genre b)
      else if field = ''authors'' then Inr (book_authors b)
      else if field = ''publisher'' then Inr (book_publisher b)
      else if field = ''publishedDate'' then Inr (book_publishedDate b)
      else Inl KeyError)"

subsection \<open>\<open>BookClub\<close>\<close>

definition get_books :: "book_db \<Rightarrow> book entry list" where
  "get_books db = find_gt0 (book_collection db)"

definition get_book_ratings :: "book_db \<Rightarrow> rating list" where
  "get_book_ratings db = map snd (rating_collection db)"

text \<open>\<open>get_book\<close>: without a positive identifier the function falls off its end and
  returns \<open>None\<close>.\<close>

definition get_book :: "book_db \<Rightarrow> ident \<Rightarrow> error + book entry option" where
  "get_book db bid =
     (case py_int bid of
        Inl e \<Rightarrow> Inl e
      | Inr n \<Rightarrow> (if n > 0 then Inr (find_one (book_collection db) n) else Inr None))"

definition get_book_rating :: "book_db \<Rightarrow> ident \<Rightarrow> error + rating option" where
  "get_book_rating db bid =
     (case py_int bid of
        Inl e \<Rightarrow> Inl e
      | Inr n \<Rightarrow> Inr (find_one (rating_collection db) n))"

text \<open>\<open>calculate_rating_average\<close>: reads the rating back, divides the sum of all its values
  by their number, stores the quotient and returns it.\<close>

definition calculate_rating_average :: "book_db \<Rightarrow> ident \<Rightarrow> book_db \<times> (error + rat)" where
  "calculate_rating_average db rid =
     (case py_int rid of
        Inl e \<Rightarrow> (db, Inl e)
      | Inr n \<Rightarrow>
          (case find_one (rating_collection db) n of
             None \<Rightarrow> (db, Inl TypeError)
           | Some r \<Rightarrow>
               (if rating_values r = [] then (db, Inl ZeroDivisionError)
                else
                  (let new_average =
                         of_int (sum_list (rating_values r)) / of_nat (length (rating_values r))
                   in (db\<lparr>rating_collection :=
                             update_one (rating_collection db) n
                               (\<lambda>d. d\<lparr>rating_average := new_average\<rparr>)\<rparr>,
                       Inr new_average)))))"

text \<open>\<open>add_rating_value\<close>: \<open>$push\<close> of the value, then \<open>calculate_rating_average\<close>.\<close>

definition add_rating_value :: "book_db \<Rightarrow> int \<Rightarrow> ident \<Rightarrow> book_db \<times> (error + rat)" where
  "add_rating_value db rating_value rid =
     (case py_int rid of
        Inl e \<Rightarrow> (db, Inl e)
      | Inr n \<Rightarrow>
          calculate_rating_average
            (db\<lparr>rating_collection :=
                  update_one (rating_collection db) n
                    (\<lambda>d. d\<lparr>rating_values := rating_values d @ [rating_value]\<rparr>)\<rparr>)
            rid)"

text \<open>
  \<open>delete_one(book)\<close> with the document \<open>get_book\<close> returned as the filter: the first
  document whose fields all equal those of the filter is removed. All book documents have
  the same fields, so a document matches exactly when it equals the filter.
\<close>

fun delete_one_matching :: "(int \<times> 'd) list \<Rightarrow> 'd \<Rightarrow> (int \<times> 'd) list" where
  "delete_one_matching [] flt = []"
| "delete_one_matching ((i, d) # c) flt =
     (if d = flt then c else (i, d) # delete_one_matching c flt)"

definition delete_book :: "book_db \<Rightarrow> ident \<Rightarrow> book_db \<times> (error + unit)" where
  "delete_book db bid =
     (case py_int bid of
        Inl e \<Rightarrow> (db, Inl e)
      | Inr n \<Rightarrow>
          (case get_book db (IdInt n) of
             Inl e \<Rightarrow> (db, Inl e)
           | Inr None \<Rightarrow> (db, Inr ())
           | Inr (Some book) \<Rightarrow>
               (db\<lparr>book_collection := delete_one_matching (book_collection db) book,
                   rating_collection := delete_one (rating_collection db) n\<rparr>,
                Inr ())))"

text \<open>\<open>delete_book_rating\<close> passes its argument on as the \<open>_id\<close> of the filter without
  converting it. The \<open>_id\<close> of every document is an integer, so a string matches none.\<close>

definition delete_book_rating :: "book_db \<Rightarrow> ident \<Rightarrow> book_db \<times> (error + unit)" where
  "delete_book_rating db bid =
     (case get_book_rating db bid of
        Inl e \<Rightarrow> (db, Inl e)
      | Inr None \<Rightarrow> (db, Inr ())
      | Inr (Some r) \<Rightarrow>
          (case bid of
             IdStr s \<Rightarrow> (db, Inr ())
           | IdInt n \<Rightarrow>
               (db\<lparr>rating_collection := delete_one (rating_collection db) n\<rparr>, Inr ())))"

text \<open>\<open>validate_rating_for_a_book\<close>: the payload has the single key \<open>value\<close>, an \<open>int\<close>
  between 1 and 5. In Python \<open>bool\<close> is a subclass of \<open>int\<close>, with \<open>True == 1\<close>.\<close>

fun as_int :: "json \<Rightarrow> int option" where
  "as_int (JNum n) = Some n"
| "as_int (JBool b) = Some (if b then 1 else 0)"
| "as_int _ = None"

definition validate_rating_for_a_book :: "(string \<times> json) list \<Rightarrow> 'a reply option" where
  "validate_rating_for_a_book rating_payload =
     (if dict_len rating_payload \<noteq> 1 \<or> \<not> dict_has rating_payload ''value''
         \<or> (case map_of rating_payload ''value'' of
               None \<Rightarrow> True
             | Some v \<Rightarrow> (case as_int v of None \<Rightarrow> True | Some n \<Rightarrow> n < 1 \<or> n > 5))
      then Some (Error_reply ''Invalid rating value'' 422)
      else None)"

subsection \<open>Handlers\<close>

text \<open>The body of the reply of \<open>GET /books\<close>: the single match as an object, otherwise
  the list of matches.\<close>

datatype books_body = One_book "book entry" | Book_list "book entry list"

text \<open>The book documents a reply body of \<open>GET /books\<close> shows.\<close>

fun entries_of :: "books_body \<Rightarrow> book entry list" where
  "entries_of (One_book b) = [b]"
| "entries_of (Book_list bs) = bs"

fun Books_get_loop :: "(string \<times> string) list \<Rightarrow> book entry list \<Rightarrow> error + books_body reply" where
  "Books_get_loop [] filtered_books =
     (case filtered_books of
        [b] \<Rightarrow> Inr (Ok_reply (One_book b) 200)
      | _ \<Rightarrow> Inr (Ok_reply (Book_list filtered_books) 200))"
| "Books_get_loop ((field, val) # request_parameters) filtered_books =
     (if field \<notin> set REQUIRED_FIELDS \<or> (field = ''genre'' \<and> val \<notin> set GENRES)
      then Inr (Error_reply ''Invalid field or genre'' 422)
      else
        (case filter_raising
                (\<lambda>book. case book_getitem book field of
                           Inl e \<Rightarrow> Inl e
                         | Inr x \<Rightarrow> Inr (x = val))
                filtered_books of
           Inl e \<Rightarrow> Inl e
         | Inr filtered_books' \<Rightarrow> Books_get_loop request_parameters filtered_books'))"

definition Books_get :: "book_db \<Rightarrow> (string \<times> string) list \<Rightarrow> error + books_body reply" where
  "Books_get db request_parameters = Books_get_loop request_parameters (get_books db)"

definition SpecificBook_get :: "book_db \<Rightarrow> string \<Rightarrow> error + book entry reply" where
  "SpecificBook_get db bid =
     (case get_book db (IdStr bid) of
        Inl e \<Rightarrow> Inl e
      | Inr None \<Rightarrow> Inr (Error_reply ''Book not found'' 404)
      | Inr (Some book) \<Rightarrow> Inr (Ok_reply book 200))"

definition SpecificBook_delete :: "book_db \<Rightarrow> string \<Rightarrow> book_db \<times> (error + string reply)" where
  "SpecificBook_delete db bid =
     (case get_book db (IdStr bid) of
        Inl e \<Rightarrow> (db, Inl e)
      | Inr None \<Rightarrow> (db, Inr (Error_reply ''Book not found'' 404))
      | Inr (Some book) \<Rightarrow>
          (case delete_book db (IdStr bid) of
             (db1, Inl e) \<Rightarrow> (db1, Inl e)
           | (db1, Inr u) \<Rightarrow>
               (case delete_book_rating db1 (IdStr bid) of
                  (db2, Inl e) \<Rightarrow> (db2, Inl e)
                | (db2, Inr u') \<Rightarrow> (db2, Inr (Ok_reply bid 200)))))"

definition SpecificRatings_get :: "book_db \<Rightarrow> string \<Rightarrow> error + rating reply" where
  "SpecificRatings_get db bid =
     (case get_book_rating db (IdStr bid) of
        Inl e \<Rightarrow> Inl e
      | Inr None \<Rightarrow> Inr (Error_reply ''Rating not found'' 404)
      | Inr (Some r) \<Rightarrow> Inr (Ok_reply r 200))"

text \<open>\<open>POST /ratings/{id}/values\<close>. An empty payload is falsy and answered with 415.\<close>

definition SpecificRatingsValues_post ::
  "book_db \<Rightarrow> string \<Rightarrow> (string \<times> json) list \<Rightarrow> book_db \<times> (error + rat reply)" where
  "SpecificRatingsValues_post db bid rating_payload =
     (case get_book_rating db (IdStr bid) of
        Inl e \<Rightarrow> (db, Inl e)
      | Inr None \<Rightarrow> (db, Inr (Error_reply ''Rating not found'' 404))
      | Inr (Some r) \<Rightarrow>
          (if rating_payload = [] then (db, Inr (Error_reply ''Unsupported media type'' 415))
           else
             (case validate_rating_for_a_book rating_payload of
                Some err \<Rightarrow> (db, Inr err)
              | None \<Rightarrow>
                  (case map_of rating_payload ''value'' of
                     None \<Rightarrow> (db, Inl KeyError)
                   | Some v \<Rightarrow>
                       (case as_int v of
                          None \<Rightarrow> (db, Inl TypeError)
                        | Some n \<Rightarrow>
                            (case add_rating_value db n (IdStr bid) of
                               (db1, Inl e) \<Rightarrow> (db1, Inl e)
                             | (db1, Inr average) \<Rightarrow> (db1, Inr (Ok_reply average 201))))))))"

subsection \<open>\<open>GET /top\<close>\<close>

text \<open>One line of the reply: \<open>{'id': ..., 'title': ..., 'average': ...}\<close>.\<close>

record top_book =
  top_id :: string
  top_title :: string
  top_average :: rat

text \<open>
  The loop over \<open>sorted_books\<close>, with its three variables \<open>top_books\<close>, \<open>top_rate_counter\<close>
  and \<open>current_average\<close>. \<open>rating_of book\<close> stands for
  \<open>book_club.get_book_rating(book['id'])\<close> and \<open>id_title book\<close> for the pair
  \<open>(book['id'], book['title'])\<close>; both are looked up anew in every round, as in the code.
  \<open>break\<close> ends the loop with the list built so far.
\<close>

fun top_loop ::
  "('b \<Rightarrow> error + rating) \<Rightarrow> ('b \<Rightarrow> error + string \<times> string) \<Rightarrow>
   'b list \<Rightarrow> top_book list \<Rightarrow> nat \<Rightarrow> rat \<Rightarrow> error + top_book list" where
  "top_loop rating_of id_title [] top_books top_rate_counter current_average = Inr top_books"
| "top_loop rating_of id_title (book # sorted_books) top_books top_rate_counter current_average =
     (case rating_of book of
        Inl e \<Rightarrow> Inl e
      | Inr r \<Rightarrow>
          (let top_rate_counter' =
                 (if rating_average r \<noteq> current_average then top_rate_counter + 1
                  else top_rate_counter)
           in if rating_average r \<noteq> current_average \<and> top_rate_counter' > 3
              then Inr top_books
              else
                (case id_title book of
                   Inl e \<Rightarrow> Inl e
                 | Inr (i, t) \<Rightarrow>
                     top_loop rating_of id_title sorted_books
                       (top_books @ [\<lparr>top_id = i, top_title = t, top_average = rating_average r\<rparr>])
                       top_rate_counter' (rating_average r))))"

text \<open>
  \<open>sorted(eligible_books, key=..., reverse=True)\<close>: Python computes the key of every
  element first, then sorts stably, so that books with equal averages keep their order.
\<close>

definition sorted_by_average ::
  "('b \<Rightarrow> error + rating) \<Rightarrow> 'b list \<Rightarrow> error + 'b list" where
  "sorted_by_average rating_of eligible_books =
     (case map_raising
             (\<lambda>book. case rating_of book of Inl e \<Rightarrow> Inl e | Inr r \<Rightarrow> Inr (rating_average r))
             eligible_books of
        Inl e \<Rightarrow> Inl e
      | Inr keys \<Rightarrow> Inr (map fst (sort_key (\<lambda>(book, k). - k) (zip eligible_books keys))))"

definition top_books_of ::
  "('b \<Rightarrow> error + rating) \<Rightarrow> ('b \<Rightarrow> error + string \<times> string) \<Rightarrow> 'b list
   \<Rightarrow> error + top_book list reply" where
  "top_books_of rating_of id_title books =
     (case filter_raising
             (\<lambda>book. case rating_of book of
                        Inl e \<Rightarrow> Inl e
                      | Inr r \<Rightarrow> Inr (length (rating_values r) \<ge> 3))
             books of
        Inl e \<Rightarrow> Inl e
      | Inr eligible_books \<Rightarrow>
          (case sorted_by_average rating_of eligible_books of
             Inl e \<Rightarrow> Inl e
           | Inr sorted_books \<Rightarrow>
               (case top_loop rating_of id_title sorted_books [] 0 0 of
                  Inl e \<Rightarrow> Inl e
                | Inr top_books \<Rightarrow> Inr (Ok_reply top_books 200))))"

text \<open>\<open>book_club.get_book_rating(book['id'])\<close> as the loop uses it: the result is
  subscripted at once, which raises TypeError when it is \<open>None\<close>.\<close>

definition rating_of_book :: "book_db \<Rightarrow> book entry \<Rightarrow> error + rating" where
  "rating_of_book db book =
     (case book_getitem book ''id'' of
        Inl e \<Rightarrow> Inl e
      | Inr i \<Rightarrow>
          (case get_book_rating db (IdStr i) of
             Inl e \<Rightarrow> Inl e
           | Inr None \<Rightarrow> Inl TypeError
           | Inr (Some r) \<Rightarrow> Inr r))"

definition id_title_of_book :: "book entry \<Rightarrow> error + string \<times> string" where
  "id_title_of_book book =
     (case book_getitem book ''id'' of
        Inl e \<Rightarrow> Inl e
      | Inr i \<Rightarrow>
          (case book_getitem book ''title'' of
             Inl e \<Rightarrow> Inl e
           | Inr t \<Rightarrow> Inr (i, t)))"

definition TopBooks_get :: "book_db \<Rightarrow> error + top_book list reply" where
  "TopBooks_get db = top_books_of (rating_of_book db) id_title_of_book (get_books db)"

subsection \<open>Sequences of ratings\<close>

text \<open>The arithmetic mean of a sequence of values.\<close>

definition mean :: "int list \<Rightarrow> rat" where
  "mean vs = of_int (sum_list vs) / of_nat (length vs)"

text \<open>The requests \<open>POST /ratings/{id}/values\<close> with the payloads \<open>{"value": v}\<close> for the
  values of a list, one after the other.\<close>

definition rate_seq :: "book_db \<Rightarrow> string \<Rightarrow> int list \<Rightarrow> book_db" where
  "rate_seq db bid vs =
     fold (\<lambda>v d. fst (SpecificRatingsValues_post d bid [(''value'', JNum v)])) vs db"

section \<open>The loan service\<close>

text \<open>
  A loan document has the fields \<open>loanID, bookID, title, ISBN, memberName, loanDate\<close>.
  \<open>loanID\<close> is the string of the identifier; \<open>bookID\<close> and \<open>title\<close> are copied from the
  catalog's answer and \<open>ISBN\<close>, \<open>memberName\<close> and \<open>loanDate\<close> from the request payload, as
  they are. The payload of a request is any JSON value: the service does not check that
  it is an object, nor that its members are strings.
\<close>

record loan =
  loan_loanID :: string
  loan_bookID :: json
  loan_title :: json
  loan_ISBN :: json
  loan_memberName :: json
  loan_loanDate :: json

definition LOAN_REQUIRED_FIELDS :: "string list" where
  "LOAN_REQUIRED_FIELDS = [''memberName'', ''ISBN'', ''loanDate'', ''title'', ''bookID'', ''loanID'']"

text \<open>\<open>loan[field]\<close> on a document read from the loan collection.\<close>

fun loan_getitem :: "loan entry \<Rightarrow> string \<Rightarrow> error + json" where
  "loan_getitem (Counter k) field = Inl KeyError"
| "loan_getitem (Doc l) field =
     (if field = ''memberName'' then Inr (loan_memberName l)
      else if field = ''ISBN'' then Inr (loan_ISBN l)
      else if field = ''loanDate'' then Inr (loan_loanDate l)
      else if field = ''title'' then Inr (loan_title l)
      else if field = ''bookID'' then Inr (loan_bookID l)
      else if field = ''loanID'' then Inr (JStr (loan_loanID l))
      else Inl KeyError)"

text \<open>The answer of the book service to \<open>GET /books?ISBN=...\<close> as the \<open>requests\<close> library
  presents it: the status code and the body; \<open>.json()\<close> raises when the body is not JSON.\<close>

record http_response =
  status_code :: nat
  content :: "json option"

definition response_json :: "http_response \<Rightarrow> error + json" where
  "response_json r = (case content r of None \<Rightarrow> Inl JSONDecodeError | Some j \<Rightarrow> Inr j)"

subsection \<open>Dates\<close>

text \<open>
  \<open>re.compile(r'^\d{4}-\d{2}-\d{2}$').match(s)\<close>: four digits, a hyphen, two digits, a
  hyphen, two digits. \<open>$\<close> matches at the end of the string and also just before a
  newline that ends the string.
\<close>

definition date_shape :: "string \<Rightarrow> bool" where
  "date_shape s =
     (length s = 10
      \<and> is_digit (s ! 0) \<and> is_digit (s ! 1) \<and> is_digit (s ! 2) \<and> is_digit (s ! 3)
      \<and> s ! 4 = CHR ''-''
      \<and> is_digit (s ! 5) \<and> is_digit (s ! 6)
      \<and> s ! 7 = CHR ''-''
      \<and> is_digit (s ! 8) \<and> is_digit (s ! 9))"

definition date_pattern_match :: "string \<Rightarrow> bool" where
  "date_pattern_match s =
     (date_shape s \<or> (length s = 11 \<and> s ! 10 = CHR 0x0A \<and> date_shape (take 10 s)))"

definition digits_value :: "string \<Rightarrow> nat" where
  "digits_value s = foldl (\<lambda>acc ch. 10 * acc + nat (digit_val ch)) 0 s"

definition is_leap :: "nat \<Rightarrow> bool" where
  "is_leap y = (y mod 4 = 0 \<and> (y mod 100 \<noteq> 0 \<or> y mod 400 = 0))"

definition days_in_month :: "nat \<Rightarrow> nat \<Rightarrow> nat" where
  "days_in_month y m =
     (if m = 2 then (if is_leap y then 29 else 28)
      else if m = 4 \<or> m = 6 \<or> m = 9 \<or> m = 11 then 30
      else 31)"

text \<open>
  \<open>datetime.strptime(s, '%Y-%m-%d')\<close> on a string that matched the pattern above. It
  raises ValueError when data remains after the day (the newline), when the month is not
  01 to 12 or the day not 01 to 31, and when year, month and day are not a date of the
  calendar (years run from 1 to 9999).
\<close>

definition strptime_Ymd :: "string \<Rightarrow> error + nat \<times> nat \<times> nat" where
  "strptime_Ymd s =
     (let y = digits_value (take 4 s);
          m = digits_value (take 2 (drop 5 s));
          d = digits_value (take 2 (drop 8 s))
      in if length s \<noteq> 10 then Inl ValueError
         else if m < 1 \<or> 12 < m \<or> d < 1 \<or> 31 < d then Inl ValueError
         else if y < 1 \<or> days_in_month y m < d then Inl ValueError
         else Inr (y, m, d))"

text \<open>The two checks of the loan date, on a value of the payload: \<open>date_pattern.match\<close>
  raises TypeError when the value is not a string.\<close>

definition match_date_pattern :: "json \<Rightarrow> error + bool" where
  "match_date_pattern v = (case v of JStr s \<Rightarrow> Inr (date_pattern_match s) | _ \<Rightarrow> Inl TypeError)"

definition strptime_value :: "json \<Rightarrow> error + nat \<times> nat \<times> nat" where
  "strptime_value v = (case v of JStr s \<Rightarrow> strptime_Ymd s | _ \<Rightarrow> Inl TypeError)"

subsection \<open>\<open>LoansService\<close>\<close>

text \<open>
  Two things the service calls are not code of the service and are kept as parameters:
  \<^item> \<open>count_documents c v\<close>, MongoDB's count of the documents of the collection that match
    \<open>{"memberName": v}\<close> (a query, so what matches a value that is not a string is decided by
    the database's query language);
  \<^item> \<open>str_of v\<close>, the text Python's string formatting gives a value inside an f-string.
\<close>

definition add_loan :: "loan collection \<Rightarrow> int \<Rightarrow> loan \<Rightarrow> error + loan collection" where
  "add_loan c n l = insert_one c n (Doc l)"

definition get_loan :: "loan collection \<Rightarrow> ident \<Rightarrow> error + loan entry option" where
  "get_loan c lid =
     (case py_int lid of
        Inl e \<Rightarrow> Inl e
      | Inr n \<Rightarrow> (if n > 0 then Inr (find_one c n) else Inr None))"

definition delete_loan :: "loan collection \<Rightarrow> ident \<Rightarrow> loan collection \<times> (error + unit)" where
  "delete_loan c lid =
     (case py_int lid of
        Inl e \<Rightarrow> (c, Inl e)
      | Inr n \<Rightarrow> (delete_one c n, Inr ()))"

definition get_loans :: "loan collection \<Rightarrow> loan entry list" where
  "get_loans c = find_gt0 c"

definition loan_count_of_member ::
  "(loan collection \<Rightarrow> json \<Rightarrow> error + nat) \<Rightarrow> loan collection \<Rightarrow> json \<Rightarrow> error + nat" where
  "loan_count_of_member count_documents c member_name = count_documents c member_name"

text \<open>
  \<open>validate_loan_addition\<close>. The two operands of the first \<open>or\<close> are evaluated in order:
  \<open>len(loan_payload)\<close> first, and the list of the tests \<open>field in loan_payload\<close> only when
  the length is 3. Each later line subscripts the payload anew.
\<close>

definition validate_loan_addition ::
  "(loan collection \<Rightarrow> json \<Rightarrow> error + nat) \<Rightarrow> (json \<Rightarrow> string) \<Rightarrow> loan collection \<Rightarrow> json
   \<Rightarrow> error + 'a reply option" where
  "validate_loan_addition count_documents str_of c loan_payload =
     (let required_fields = take 3 LOAN_REQUIRED_FIELDS in
      case py_len loan_payload of
        Inl e \<Rightarrow> Inl e
      | Inr n \<Rightarrow>
      (case (if n \<noteq> length required_fields then Inr True
             else (case map_raising (py_contains loan_payload) required_fields of
                     Inl e \<Rightarrow> Inl e
                   | Inr present \<Rightarrow> Inr (\<not> list_all (\<lambda>b. b) present))) of
         Inl e \<Rightarrow> Inl e
       | Inr True \<Rightarrow>
           Inr (Some (Error_reply ''Unprocessable content - check validity of fields'' 422))
       | Inr False \<Rightarrow>
      (case py_getitem loan_payload ''ISBN'' of
         Inl e \<Rightarrow> Inl e
       | Inr isbn \<Rightarrow>
      (case py_len isbn of
         Inl e \<Rightarrow> Inl e
       | Inr k \<Rightarrow>
           (if k \<noteq> 13 then Inr (Some (Error_reply ''Invalid ISBN'' 422))
            else
      (case any_raising
              (\<lambda>loan. case loan_getitem loan ''ISBN'' of
                         Inl e \<Rightarrow> Inl e
                       | Inr x \<Rightarrow> Inr (py_eq x isbn))
              (get_loans c) of
         Inl e \<Rightarrow> Inl e
       | Inr True \<Rightarrow> Inr (Some (Error_reply ''This book is already on loan'' 422))
       | Inr False \<Rightarrow>
      (case py_getitem loan_payload ''memberName'' of
         Inl e \<Rightarrow> Inl e
       | Inr member_name \<Rightarrow>
      (case loan_count_of_member count_documents c member_name of
         Inl e \<Rightarrow> Inl e
       | Inr cnt \<Rightarrow>
           (if cnt \<ge> 2
            then Inr (Some (Error_reply
                   (''Too many books on loan for '' @ str_of member_name @ ''.'') 422))
            else
      (case py_getitem loan_payload ''loanDate'' of
         Inl e \<Rightarrow> Inl e
       | Inr loanDate \<Rightarrow>
      (case match_date_pattern loanDate of
         Inl e \<Rightarrow> Inl e
       | Inr False \<Rightarrow>
           Inr (Some (Error_reply ''Invalid date format, should be YYYY-MM-DD'' 422))
       | Inr True \<Rightarrow>
           (case strptime_value loanDate of
              Inl e \<Rightarrow> Inr (Some (Error_reply ''Invalid date'' 422))
            | Inr ymd \<Rightarrow> Inr None))))))))))))"

subsection \<open>Handlers\<close>

fun Loans_get_loop :: "(string \<times> string) list \<Rightarrow> loan entry list \<Rightarrow> error + loan entry list reply" where
  "Loans_get_loop [] filtered_loans = Inr (Ok_reply filtered_loans 200)"
| "Loans_get_loop ((field, val) # request_parameters) filtered_loans =
     (if field \<notin> set LOAN_REQUIRED_FIELDS
      then Inr (Error_reply ''Unprocessable content - check validity of fields'' 422)
      else
        (case filter_raising
                (\<lambda>loan. case loan_getitem loan field of
                           Inl e \<Rightarrow> Inl e
                         | Inr x \<Rightarrow> Inr (py_eq x (JStr val)))
                filtered_loans of
           Inl e \<Rightarrow> Inl e
         | Inr filtered_loans' \<Rightarrow> Loans_get_loop request_parameters filtered_loans'))"

definition Loans_get :: "loan collection \<Rightarrow> (string \<times> string) list \<Rightarrow> error + loan entry list reply" where
  "Loans_get c request_parameters = Loans_get_loop request_parameters (get_loans c)"

text \<open>
  \<open>POST /loans\<close>. \<open>check_if_in_library\<close> is the request to the book service; it can raise
  (no connection). The result is the collection after the request and the reply or the
  exception that ended the request: what was written before an exception stays written.
\<close>

definition Loans_post ::
  "(loan collection \<Rightarrow> json \<Rightarrow> error + nat) \<Rightarrow> (json \<Rightarrow> string) \<Rightarrow>
   (json \<Rightarrow> error + http_response) \<Rightarrow> loan collection \<Rightarrow> json
   \<Rightarrow> loan collection \<times> (error + string reply)" where
  "Loans_post count_documents str_of check_if_in_library c loan_payload =
     (if \<not> py_truthy loan_payload
      then (c, Inr (Error_reply ''Unsupported media type'' 415))
      else
        (case validate_loan_addition count_documents str_of c loan_payload of
           Inl e \<Rightarrow> (c, Inl e)
         | Inr (Some error) \<Rightarrow> (c, Inr error)
         | Inr None \<Rightarrow>
        (case py_getitem loan_payload ''ISBN'' of
           Inl e \<Rightarrow> (c, Inl e)
         | Inr isbn \<Rightarrow>
        (case check_if_in_library isbn of
           Inl e \<Rightarrow> (c, Inl e)
         | Inr book_response \<Rightarrow>
        (case response_json book_response of
           Inl e \<Rightarrow> (c, Inl e)
         | Inr book_details \<Rightarrow>
        (case py_len book_details of
           Inl e \<Rightarrow> (c, Inl e)
         | Inr n \<Rightarrow>
             (if n = 0 \<or> status_code book_response \<noteq> 200
              then (c, Inr (Error_reply ''book not found in the library'' 404))
              else
        (case increment_id c of
           Inl e \<Rightarrow> (c, Inl e)
         | Inr (loan_id, c1) \<Rightarrow>
        (case py_getitem book_details ''id'' of
           Inl e \<Rightarrow> (c1, Inl e)
         | Inr bookID \<Rightarrow>
        (case py_getitem book_details ''title'' of
           Inl e \<Rightarrow> (c1, Inl e)
         | Inr title \<Rightarrow>
        (case py_getitem loan_payload ''ISBN'' of
           Inl e \<Rightarrow> (c1, Inl e)
         | Inr isbn' \<Rightarrow>
        (case py_getitem loan_payload ''memberName'' of
           Inl e \<Rightarrow> (c1, Inl e)
         | Inr member_name \<Rightarrow>
        (case py_getitem loan_payload ''loanDate'' of
           Inl e \<Rightarrow> (c1, Inl e)
         | Inr loanDate \<Rightarrow>
        (case add_loan c1 loan_id
                \<lparr>loan_loanID = py_str loan_id, loan_bookID = bookID, loan_title = title,
                 loan_ISBN = isbn', loan_memberName = member_name,
                 loan_loanDate = loanDate\<rparr> of
           Inl e \<Rightarrow> (c1, Inl e)
         | Inr c2 \<Rightarrow> (c2, Inr (Ok_reply (py_str loan_id) 201))))))))))))))))"

definition SpecificLoan_get :: "loan collection \<Rightarrow> string \<Rightarrow> error + loan entry reply" where
  "SpecificLoan_get c lid =
     (case get_loan c (IdStr lid) of
        Inl e \<Rightarrow> Inl e
      | Inr None \<Rightarrow> Inr (Error_reply ''Loan not found'' 404)
      | Inr (Some l) \<Rightarrow> Inr (Ok_reply l 200))"

definition SpecificLoan_delete ::
  "loan collection \<Rightarrow> string \<Rightarrow> loan collection \<times> (error + string reply)" where
  "SpecificLoan_delete c lid =
     (case get_loan c (IdStr lid) of
        Inl e \<Rightarrow> (c, Inl e)
      | Inr None \<Rightarrow> (c, Inr (Error_reply ''Loan not found'' 404))
      | Inr (Some l) \<Rightarrow>
          (case delete_loan c (IdStr lid) of
             (c1, Inl e) \<Rightarrow> (c1, Inl e)
           | (c1, Inr u) \<Rightarrow> (c1, Inr (Ok_reply lid 200))))"

subsection \<open>Notions of the specification\<close>

text \<open>The active loans: the loan records of the collection (a loan is active until it is
  deleted).\<close>

definition active_loans :: "loan collection \<Rightarrow> loan list" where
  "active_loans c = concat (map (\<lambda>e. case e of Counter k \<Rightarrow> [] | Doc l \<Rightarrow> [l]) (get_loans c))"

text \<open>Gate 1: exactly the required field set is present.\<close>

definition gate_fields :: "(string \<times> json) list \<Rightarrow> bool" where
  "gate_fields p =
     (dict_len p = 3 \<and> dict_has p ''memberName'' \<and> dict_has p ''ISBN'' \<and> dict_has p ''loanDate'')"

text \<open>Gate 5: the loan date reads \<open>YYYY-MM-DD\<close> and is a date of the calendar.\<close>

definition calendar_date :: "string \<Rightarrow> bool" where
  "calendar_date s =
     (date_shape s
      \<and> (let y = digits_value (take 4 s);
              m = digits_value (take 2 (drop 5 s));
              d = digits_value (take 2 (drop 8 s))
          in 1 \<le> y \<and> 1 \<le> m \<and> m \<le> 12 \<and> 1 \<le> d \<and> d \<le> days_in_month y m))"

text \<open>A database whose count of \<open>{"memberName": v}\<close> is the number of loan documents whose
  member name is \<open>v\<close>.\<close>

definition count_equal_member :: "loan collection \<Rightarrow> json \<Rightarrow> error + nat" where
  "count_equal_member c v =
     Inr (length (filter (\<lambda>(i, e). case e of Counter k \<Rightarrow> False
                                    | Doc l \<Rightarrow> loan_memberName l = v) c))"

section \<open>The book service (first, in-memory version)\<close>

text \<open>
  The first version keeps its books and ratings in two Python lists and its identifier
  counter in an attribute. Its books have two more fields, \<open>language\<close> (a list of language
  codes) and \<open>summary\<close>.
\<close>

record book1 =
  book1_title :: string
  book1_ISBN :: string
  book1_genre :: string
  book1_authors :: string
  book1_publisher :: string
  book1_publishedDate :: string
  book1_language :: "string list"
  book1_summary :: string
  book1_id :: string

record book_club =
  books :: "book1 list"
  bookRatings :: "rating list"
  ID :: int

definition REQUIRED_FIELDS1 :: "string list" where
  "REQUIRED_FIELDS1 =
     [''title'', ''ISBN'', ''genre'', ''authors'', ''publisher'', ''publishedDate'',
      ''language'', ''summary'', ''id'']"

text \<open>\<open>book[field]\<close> for a field whose value is a string.\<close>

definition book1_getitem :: "book1 \<Rightarrow> string \<Rightarrow> error + string" where
  "book1_getitem b field =
     (if field = ''title'' then Inr (book1_title b)
      else if field = ''ISBN'' then Inr (book1_ISBN b)
      else if field = ''genre'' then Inr (book1_genre b)
      else if field = ''authors'' then Inr (book1_authors b)
      else if field = ''publisher'' then Inr (book1_publisher b)
      else if field = ''publishedDate'' then Inr (book1_publishedDate b)
      else if field = ''summary'' then Inr (book1_summary b)
      else if field = ''id'' then Inr (book1_id b)
      else Inl KeyError)"

text \<open>\<open>next((rating for rating in self.bookRatings if rating['id'] == book_id), None)\<close>\<close>

definition get_book_rating1 :: "book_club \<Rightarrow> string \<Rightarrow> rating option" where
  "get_book_rating1 club bid = find (\<lambda>r. rating_id r = bid) (bookRatings club)"

text \<open>\<open>GET /books\<close> of the first version.\<close>

fun Books_get1_loop :: "(string \<times> string) list \<Rightarrow> book1 list \<Rightarrow> error + book1 list reply" where
  "Books_get1_loop [] filtered_books = Inr (Ok_reply filtered_books 200)"
| "Books_get1_loop ((field, val) # request_parameters) filtered_books =
     (if field \<notin> set REQUIRED_FIELDS1 \<or> (field = ''genre'' \<and> val \<notin> set GENRES)
      then Inr (Error_reply ''Invalid field or genre'' 422)
      else if field = ''language'' then
        (if val \<notin> set [''heb'', ''eng'', ''spa'', ''chi'']
         then Inr (Error_reply ''Invalid language'' 422)
         else Books_get1_loop request_parameters
                (filter (\<lambda>book. val \<in> set (book1_language book)) filtered_books))
      else
        (case filter_raising
                (\<lambda>book. case book1_getitem book field of
                           Inl e \<Rightarrow> Inl e
                         | Inr x \<Rightarrow> Inr (x = val))
                filtered_books of
           Inl e \<Rightarrow> Inl e
         | Inr filtered_books' \<Rightarrow> Books_get1_loop request_parameters filtered_books'))"

definition Books_get1 :: "book_club \<Rightarrow> (string \<times> string) list \<Rightarrow> error + book1 list reply" where
  "Books_get1 club request_parameters = Books_get1_loop request_parameters (books club)"

text \<open>
  \<open>POST /ratings/{id}/values\<close> of the first version: the value is appended to the rating's
  list in place and the average is set to the quotient of the sum of the list by its
  length. The rating changed is the first one with the identifier, the one
  \<open>get_book_rating\<close> returned.
\<close>

fun update_first :: "('a \<Rightarrow> bool) \<Rightarrow> ('a \<Rightarrow> 'a) \<Rightarrow> 'a list \<Rightarrow> 'a list" where
  "update_first p f [] = []"
| "update_first p f (x # xs) = (if p x then f x # xs else x # update_first p f xs)"

definition SpecificRatingsValues_post1 ::
  "book_club \<Rightarrow> string \<Rightarrow> (string \<times> json) list \<Rightarrow> book_club \<times> (error + rat reply)" where
  "SpecificRatingsValues_post1 club bid rating_payload =
     (case get_book_rating1 club bid of
        None \<Rightarrow> (club, Inr (Error_reply ''Rating not found'' 404))
      | Some r \<Rightarrow>
          (if rating_payload = [] then (club, Inr (Error_reply ''Unsupported media type'' 415))
           else
             (case validate_rating_for_a_book rating_payload of
                Some err \<Rightarrow> (club, Inr err)
              | None \<Rightarrow>
                  (case map_of rating_payload ''value'' of
                     None \<Rightarrow> (club, Inl KeyError)
                   | Some v \<Rightarrow>
                       (case as_int v of
                          None \<Rightarrow> (club, Inl TypeError)
                        | Some n \<Rightarrow>
                            (let vals = rating_values r @ [n];
                                 average = of_int (sum_list vals) / of_nat (length vals)
                             in (club\<lparr>bookRatings :=
                                        update_first (\<lambda>x. rating_id x = bid)
                                          (\<lambda>x. x\<lparr>rating_values := vals,
                                                  rating_average := average\<rparr>)
                                          (bookRatings club)\<rparr>,
                                 Inr (Ok_reply average 200))))))))"

text \<open>\<open>GET /top\<close> of the first version: the same code, on the in-memory lists.\<close>

definition rating_of_book1 :: "book_club \<Rightarrow> book1 \<Rightarrow> error + rating" where
  "rating_of_book1 club book =
     (case get_book_rating1 club (book1_id book) of
        None \<Rightarrow> Inl TypeError
      | Some r \<Rightarrow> Inr r)"

definition id_title_of_book1 :: "book1 \<Rightarrow> error + string \<times> string" where
  "id_title_of_book1 book = Inr (book1_id book, book1_title book)"

definition TopBooks_get1 :: "book_club \<Rightarrow> error + top_book list reply" where
  "TopBooks_get1 club = top_books_of (rating_of_book1 club) id_title_of_book1 (books club)"

definition rate_seq1 :: "book_club \<Rightarrow> string \<Rightarrow> int list \<Rightarrow> book_club" where
  "rate_seq1 club bid vs =
     fold (\<lambda>v d. fst (SpecificRatingsValues_post1 d bid [(''value'', JNum v)])) vs club"

section \<open>Example states\<close>

text \<open>The catalog after one book, with ISBN 9780134685991, has been added to an empty
  store, in the persistent and in the first version.\<close>

definition example_book :: book where
  "example_book =
     \<lparr>book_id = ''1'', book_title = ''Effective Java'', book_ISBN = ''9780134685991'',
      book_genre = ''Science'', book_authors = ''Joshua Bloch'',
      book_publisher = ''Addison-Wesley'', book_publishedDate = ''2018-01-06''\<rparr>"

definition example_rating :: rating where
  "example_rating =
     \<lparr>rating_id = ''1'', rating_values = [], rating_average = 0,
      rating_title = ''Effective Java''\<rparr>"

definition example_db :: book_db where
  "example_db =
     \<lparr>book_collection = [(0, Counter 1), (1, Doc example_book)],
      rating_collection = [(1, example_rating)]\<rparr>"

definition example_book1 :: book1 where
  "example_book1 =
     \<lparr>book1_title = ''Effective Java'', book1_ISBN = ''9780134685991'',
      book1_genre = ''Science'', book1_authors = ''Joshua Bloch'',
      book1_publisher = ''Addison-Wesley'', book1_publishedDate = ''2018-01-06'',
      book1_language = [''eng''], book1_summary = ''A guide.'', book1_id = ''1''\<rparr>"

definition example_club :: book_club where
  "example_club = \<lparr>books = [example_book1], bookRatings = [example_rating], ID = 1\<rparr>"

text \<open>A catalog of six books. Five have three ratings each, with the averages 5, 4, 3, 3
  and 2; the sixth has two ratings only.\<close>

definition example_book_n :: "string \<Rightarrow> string \<Rightarrow> book" where
  "example_book_n i t =
     \<lparr>book_id = i, book_title = t, book_ISBN = ''978013468599'' @ i,
      book_genre = ''Fiction'', book_authors = ''missing'', book_publisher = ''missing'',
      book_publishedDate = ''missing''\<rparr>"

definition example_rating_n :: "string \<Rightarrow> string \<Rightarrow> int list \<Rightarrow> rating" where
  "example_rating_n i t vs =
     \<lparr>rating_id = i, rating_values = vs, rating_average = mean vs, rating_title = t\<rparr>"

definition example_top_db :: book_db where
  "example_top_db =
     \<lparr>book_collection =
        [(0, Counter 6),
         (1, Doc (example_book_n ''1'' ''A'')), (2, Doc (example_book_n ''2'' ''B'')),
         (3, Doc (example_book_n ''3'' ''C'')), (4, Doc (example_book_n ''4'' ''D'')),
         (5, Doc (example_book_n ''5'' ''E'')), (6, Doc (example_book_n ''6'' ''F''))],
      rating_collection =
        [(1, example_rating_n ''1'' ''A'' [3, 3, 3]), (2, example_rating_n ''2'' ''B'' [5, 5, 5]),
         (3, example_rating_n ''3'' ''C'' [2, 2, 2]), (4, example_rating_n ''4'' ''D'' [4, 4, 4]),
         (5, example_rating_n ''5'' ''E'' [3, 3, 3]), (6, example_rating_n ''6'' ''F'' [5, 5])]\<rparr>"

definition example_book1_n :: "string \<Rightarrow> string \<Rightarrow> book1" where
  "example_book1_n i t =
     \<lparr>book1_title = t, book1_ISBN = ''978013468599'' @ i, book1_genre = ''Fiction'',
      book1_authors = ''missing'', book1_publisher = ''missing'',
      book1_publishedDate = ''missing'', book1_language = [''eng''],
      book1_summary = ''missing'', book1_id = i\<rparr>"

definition example_top_club :: book_club where
  "example_top_club =
     \<lparr>books =
        [example_book1_n ''1'' ''A'', example_book1_n ''2'' ''B'', example_book1_n ''3'' ''C'',
         example_book1_n ''4'' ''D'', example_book1_n ''5'' ''E'', example_book1_n ''6'' ''F''],
      bookRatings =
        [example_rating_n ''1'' ''A'' [3, 3, 3], example_rating_n ''2'' ''B'' [5, 5, 5],
         example_rating_n ''3'' ''C'' [2, 2, 2], example_rating_n ''4'' ''D'' [4, 4, 4],
         example_rating_n ''5'' ''E'' [3, 3, 3], example_rating_n ''6'' ''F'' [5, 5]],
      ID = 6\<rparr>"

text \<open>A loan collection with two loans, both of the member alice, and five payloads: one
  for an ISBN that is on loan, one of alice (who has two loans), one with the date
  2023-02-30, one that passes all gates, and one of alice whose ISBN is a number.\<close>

definition example_loan_n :: "string \<Rightarrow> string \<Rightarrow> string \<Rightarrow> loan" where
  "example_loan_n i isbn member =
     \<lparr>loan_loanID = i, loan_bookID = JStr i, loan_title = JStr ''T'', loan_ISBN = JStr isbn,
      loan_memberName = JStr member, loan_loanDate = JStr ''2024-01-15''\<rparr>"

definition example_loans :: "loan collection" where
  "example_loans =
     [(0, Counter 2),
      (1, Doc (example_loan_n ''1'' ''9780134685991'' ''alice'')),
      (2, Doc (example_loan_n ''2'' ''9780262033848'' ''alice''))]"

definition payload_on_loan :: json where
  "payload_on_loan =
     JObj [(''memberName'', JStr ''bob''), (''ISBN'', JStr ''9780134685991''),
           (''loanDate'', JStr ''2024-01-15'')]"

definition payload_third_loan :: json where
  "payload_third_loan =
     JObj [(''memberName'', JStr ''alice''), (''ISBN'', JStr ''9780201633610''),
           (''loanDate'', JStr ''2024-01-15'')]"

definition payload_bad_date :: json where
  "payload_bad_date =
     JObj [(''memberName'', JStr ''bob''), (''ISBN'', JStr ''9780201633610''),
           (''loanDate'', JStr ''2023-02-30'')]"

definition payload_ok :: json where
  "payload_ok =
     JObj [(''memberName'', JStr ''bob''), (''ISBN'', JStr ''9780201633610''),
           (''loanDate'', JStr ''2024-02-29'')]"

definition payload_numeric_isbn :: json where
  "payload_numeric_isbn =
     JObj [(''memberName'', JStr ''alice''), (''ISBN'', JNum 9780201633610),
           (''loanDate'', JStr ''2024-01-15'')]"

text \<open>The text of a value inside an f-string, for the strings of the examples.\<close>

definition example_str_of :: "json \<Rightarrow> string" where
  "example_str_of v = (case v of JStr s \<Rightarrow> s | _ \<Rightarrow> ''?'')"

text \<open>Three answers of the book service: the book found, no book found, and an error page
  that is not JSON.\<close>

definition catalog_found :: "json \<Rightarrow> error + http_response" where
  "catalog_found isbn =
     Inr \<lparr>status_code = 200,
          content = Some (JObj [(''id'', JStr ''7''), (''title'', JStr ''Design Patterns''),
                                (''ISBN'', isbn)])\<rparr>"

definition catalog_empty :: "json \<Rightarrow> error + http_response" where
  "catalog_empty isbn = Inr \<lparr>status_code = 200, content = Some (JArr [])\<rparr>"

definition catalog_error_page :: "json \<Rightarrow> error + http_response" where
  "catalog_error_page isbn = Inr \<lparr>status_code = 500, content = None\<rparr>"

section \<open>Facts about the store operations\<close>

lemma find_one_update_one:
  "find_one (update_one c n f) m = (if m = n then map_option f (find_one c n) else find_one c m)"
  by (induction c) (auto simp: find_one_def)

lemma fst_update_one: "map fst (update_one c n f) = map fst c"
  by (induction c) auto

lemma find_one_init_counter:
  "find_one (init_counter []) 0 = Some (Counter 0)"
  by (simp add: init_counter_def find_one_def)

lemma read_highest_after_set:
  "read_highest_object_id c = Inr k \<Longrightarrow>
   read_highest_object_id (update_one c 0 (set_highest_object_id j)) = Inr j"
  by (auto simp: read_highest_object_id_def find_one_update_one
           split: option.splits entry.splits)

lemma increment_id_result:
  "read_highest_object_id c = Inr k \<Longrightarrow>
   \<exists>c'. increment_id c = Inr (k + 1, c') \<and> read_highest_object_id c' = Inr (k + 1)"
  by (simp add: increment_id_def Let_def read_highest_after_set)

lemma allocate_seq_result:
  "read_highest_object_id c = Inr k \<Longrightarrow>
   \<exists>c'. allocate_seq n c = Inr (map (\<lambda>i. k + 1 + int i) [0..<n], c')
        \<and> read_highest_object_id c' = Inr (k + int n)"
proof (induction n arbitrary: c k)
  case 0
  then show ?case by simp
next
  case (Suc n)
  from increment_id_result [OF Suc.prems] obtain c1 where
    c1: "increment_id c = Inr (k + 1, c1)" "read_highest_object_id c1 = Inr (k + 1)"
    by blast
  from Suc.IH [OF c1(2)] obtain c2 where
    c2: "allocate_seq n c1 = Inr (map (\<lambda>i. k + 1 + 1 + int i) [0..<n], c2)"
        "read_highest_object_id c2 = Inr (k + 1 + int n)"
    by blast
  have "map (\<lambda>i. k + 1 + int i) [0..<Suc n]
        = (k + 1) # map (\<lambda>i. k + 1 + 1 + int i) [0..<n]"
    by (simp add: upt_rec [of 0 "Suc n"] map_Suc_upt [symmetric] del: upt_Suc)
  with c1 c2 show ?case
    by (simp add: add.commute add.left_commute)
qed

section \<open>The allocator, one caller at a time\<close>

text \<open>
  C6. For every sequence of allocations against one store that run one after the other:
  the store starts with the counter at 0, so the first identifier is 1; an allocation on
  a store whose counter is \<open>k\<close> returns \<open>k + 1\<close> and leaves \<open>k + 1\<close> in the persisted
  counter; hence \<open>n\<close> allocations return \<open>k + 1, ..., k + n\<close> in this order, each strictly
  greater than all identifiers allocated before it (which are at most \<open>k\<close>).
\<close>

theorem allocator_strictly_increasing_from_one:
  "read_highest_object_id (init_counter ([] :: 'a collection)) = Inr 0
   \<and> (read_highest_object_id c = Inr k \<longrightarrow>
        (\<exists>c'. increment_id c = Inr (k + 1, c') \<and> read_highest_object_id c' = Inr (k + 1))
      \<and> (\<exists>ids c'. allocate_seq n c = Inr (ids, c')
            \<and> ids = map (\<lambda>i. k + 1 + int i) [0..<n]
            \<and> sorted_wrt (<) ids
            \<and> (\<forall>x\<in>set ids. k < x)
            \<and> read_highest_object_id c' = Inr (k + int n)))"
proof -
  have init: "read_highest_object_id (init_counter ([] :: 'a collection)) = Inr 0"
    by (simp add: read_highest_object_id_def find_one_init_counter)
  have mono: "sorted_wrt (<) (map (\<lambda>i. k + 1 + int i) [0..<n])"
    by (simp add: sorted_wrt_map)
  have gt: "\<forall>x\<in>set (map (\<lambda>i. k + 1 + int i) [0..<n]). k < x"
    by auto
  show ?thesis
    using init mono gt increment_id_result [of c k] allocate_seq_result [of c k n]
    by blast
qed

theorem allocator_strictly_increasing_from_one_witness:
  "read_highest_object_id (init_counter ([] :: unit collection)) = Inr 0
   \<and> increment_id (init_counter ([] :: unit collection)) = Inr (1, [(0, Counter 1)])
   \<and> allocate_seq 3 (init_counter ([] :: unit collection)) = Inr ([1, 2, 3], [(0, Counter 3)])"
proof -
  have h: "read_highest_object_id (init_counter ([] :: unit collection)) = Inr 0"
    by (simp add: read_highest_object_id_def find_one_init_counter)
  have "allocate_seq 3 (init_counter ([] :: unit collection)) = Inr ([1, 2, 3], [(0, Counter 3)])"
    using allocator_strictly_increasing_from_one
            [of "init_counter ([] :: unit collection)" 0 3] h
    by (simp add: numeral_3_eq_3 init_counter_def find_one_def increment_id_def
          read_highest_object_id_def)
  then show ?thesis
    using h by (simp add: init_counter_def find_one_def increment_id_def
          read_highest_object_id_def)
qed

section \<open>The allocator under interleaving\<close>

lemma alloc_step_twice:
  "alloc_step (fst (alloc_step c Start)) (snd (alloc_step c Start)) =
     (case increment_id c of Inl e \<Rightarrow> (c, Raised e) | Inr (k, c') \<Rightarrow> (c', Returned k))"
  by (auto simp: alloc_step_def increment_id_def Let_def split: sum.splits)

lemma run_serial:
  "read_highest_object_id c = Inr k \<Longrightarrow> distinct order \<Longrightarrow>
   \<forall>i\<in>set order. i < length pcs \<and> pcs ! i = Start \<Longrightarrow>
   \<exists>c' pcs'. run_schedule (serial order) (c, pcs) = (c', pcs')
      \<and> read_highest_object_id c' = Inr (k + int (length order))
      \<and> length pcs' = length pcs
      \<and> (\<forall>j<length order. pcs' ! (order ! j) = Returned (k + 1 + int j))
      \<and> (\<forall>i<length pcs. i \<notin> set order \<longrightarrow> pcs' ! i = pcs ! i)"
proof (induction order arbitrary: c k pcs)
  case Nil
  then show ?case by (simp add: serial_def)
next
  case (Cons a order)
  let ?c1 = "update_one c 0 (set_highest_object_id (k + 1))"
  let ?pcs1 = "pcs[a := Returned (k + 1)]"
  have a: "a < length pcs" "pcs ! a = Start" "a \<notin> set order" "distinct order"
    using Cons.prems by auto
  have step: "run_schedule (serial (a # order)) (c, pcs) = run_schedule (serial order) (?c1, ?pcs1)"
    using a Cons.prems(1) by (simp add: serial_def alloc_step_def)
  have r1: "read_highest_object_id ?c1 = Inr (k + 1)"
    using Cons.prems(1) by (rule read_highest_after_set)
  have pre: "\<forall>i\<in>set order. i < length ?pcs1 \<and> ?pcs1 ! i = Start"
    using Cons.prems(3) a by (auto simp: nth_list_update)
  from Cons.IH [OF r1 a(4) pre] obtain c' pcs' where
    IH: "run_schedule (serial order) (?c1, ?pcs1) = (c', pcs')"
        "read_highest_object_id c' = Inr (k + 1 + int (length order))"
        "length pcs' = length ?pcs1"
        "\<forall>j<length order. pcs' ! (order ! j) = Returned (k + 1 + 1 + int j)"
        "\<forall>i<length ?pcs1. i \<notin> set order \<longrightarrow> pcs' ! i = ?pcs1 ! i"
    by blast
  have "\<forall>j<length (a # order). pcs' ! ((a # order) ! j) = Returned (k + 1 + int j)"
  proof (intro allI impI)
    fix j assume j: "j < length (a # order)"
    show "pcs' ! ((a # order) ! j) = Returned (k + 1 + int j)"
    proof (cases j)
      case 0
      then show ?thesis using IH(5) a by simp
    next
      case (Suc j')
      then show ?thesis using IH(4) j by (simp add: add.commute add.left_commute)
    qed
  qed
  moreover have "\<forall>i<length pcs. i \<notin> set (a # order) \<longrightarrow> pcs' ! i = pcs ! i"
    using IH(5) by auto
  ultimately show ?case using step IH(1,2,3)
    by (simp add: add.commute add.left_commute)
qed


lemma serial_ids:
  assumes "read_highest_object_id c = Inr k" "distinct order" "set order = {0..<N}"
  shows "\<exists>c' pcs'. run_schedule (serial order) (c, replicate N Start) = (c', pcs')
      \<and> read_highest_object_id c' = Inr (k + int N)
      \<and> length pcs' = N
      \<and> (\<forall>j<N. pcs' ! (order ! j) = Returned (k + 1 + int j))
      \<and> distinct pcs'
      \<and> set pcs' = (\<lambda>j. Returned (k + 1 + int j)) ` {0..<N}"
proof -
  have len: "length order = N"
    using assms(2,3) distinct_card [of order] by simp
  have pre: "\<forall>i\<in>set order. i < length (replicate N Start) \<and> replicate N Start ! i = Start"
    using assms(3) by simp
  from run_serial [OF assms(1,2) pre] len obtain c' pcs' where
    r: "run_schedule (serial order) (c, replicate N Start) = (c', pcs')"
       "read_highest_object_id c' = Inr (k + int N)"
       "length pcs' = N"
       "\<forall>j<N. pcs' ! (order ! j) = Returned (k + 1 + int j)"
    by auto
  have idx: "\<exists>j<N. order ! j = i" if "i < N" for i
    using that assms(3) len by (metis atLeastLessThan_iff in_set_conv_nth zero_le)
  have inj: "order ! j = order ! j' \<Longrightarrow> j = j'" if "j < N" "j' < N" for j j'
    using that assms(2) len by (simp add: nth_eq_iff_index_eq)
  have d: "distinct pcs'"
    unfolding distinct_conv_nth
  proof (intro allI impI)
    fix i i' assume i: "i < length pcs'" "i' < length pcs'" "i \<noteq> i'"
    from i r(3) idx obtain j j' where j: "j < N" "order ! j = i" "j' < N" "order ! j' = i'"
      by metis
    with i(3) have "j \<noteq> j'" by auto
    with r(4) j show "pcs' ! i \<noteq> pcs' ! i'" by auto
  qed
  have s: "set pcs' = (\<lambda>j. Returned (k + 1 + int j)) ` {0..<N}"
  proof (intro set_eqI iffI)
    fix x assume "x \<in> set pcs'"
    then obtain i where "i < N" "pcs' ! i = x" using r(3) by (auto simp: in_set_conv_nth)
    with idx r(4) show "x \<in> (\<lambda>j. Returned (k + 1 + int j)) ` {0..<N}" by force
  next
    fix x assume "x \<in> (\<lambda>j. Returned (k + 1 + int j)) ` {0..<N}"
    then obtain j where j: "j < N" "x = Returned (k + 1 + int j)" by auto
    have "order ! j < N" using j(1) len assms(3) by (metis atLeastLessThan_iff nth_mem)
    with j r(3,4) show "x \<in> set pcs'" by (metis nth_mem)
  qed
  from r d s show ?thesis by blast
qed


text \<open>
  C1 (as stated, refuted). Two callers on a freshly initialised store, scheduled so that
  both read before either writes: both observe the pre-increment value 0 and both
  return the identifier 1.
\<close>

theorem concurrent_allocations_duplicate_id:
  "snd (run_schedule [0, 1, 0, 1] (init_counter ([] :: unit collection), [Start, Start]))
     = [Returned 1, Returned 1]"
  by (simp add: init_counter_def find_one_def alloc_step_def read_highest_object_id_def)

text \<open>
  C1 (amended). The read and the write of the counter are two store operations. When the
  \<open>N\<close> callers run one after the other (each caller's read directly followed by its own
  write, the callers in any order), on a store whose counter is \<open>k\<close>, every caller
  returns, the \<open>j\<close>-th caller of the order gets \<open>k + 1 + j\<close>, no two callers get the same
  identifier, the identifiers are exactly \<open>k + 1, ..., k + N\<close>, and the counter ends at
  \<open>k + N\<close>.
\<close>

theorem serial_allocations_exact_range:
  assumes "read_highest_object_id c = Inr k" "distinct order" "set order = {0..<N}"
  shows "\<exists>c' pcs'. run_schedule (serial order) (c, replicate N Start) = (c', pcs')
      \<and> read_highest_object_id c' = Inr (k + int N)
      \<and> length pcs' = N
      \<and> (\<forall>j<N. pcs' ! (order ! j) = Returned (k + 1 + int j))
      \<and> distinct pcs'
      \<and> set pcs' = (\<lambda>j. Returned (k + 1 + int j)) ` {0..<N}"
  using serial_ids [OF assms] .

theorem serial_allocations_exact_range_witness:
  "read_highest_object_id (init_counter ([] :: unit collection)) = Inr 0
   \<and> distinct [1, 0, 2 :: nat] \<and> set [1, 0, 2 :: nat] = {0..<3}
   \<and> run_schedule (serial [1, 0, 2])
        (init_counter ([] :: unit collection), replicate 3 Start)
      = ([(0, Counter 3)], [Returned 2, Returned 1, Returned 3])"
proof -
  have h1: "read_highest_object_id (init_counter ([] :: unit collection)) = Inr 0"
    by (simp add: read_highest_object_id_def find_one_init_counter)
  have h2: "distinct [1, 0, 2 :: nat]" by simp
  have h3: "set [1, 0, 2 :: nat] = {0..<3}" by auto
  have run: "run_schedule (serial [1, 0, 2])
        (init_counter ([] :: unit collection), replicate 3 Start)
      = ([(0, Counter 3)], [Returned 2, Returned 1, Returned 3])"
    by (simp add: serial_def numeral_3_eq_3 init_counter_def find_one_def alloc_step_def
          read_highest_object_id_def)
  from serial_allocations_exact_range [OF h1 h2 h3] h1 h2 h3 run show ?thesis
    by simp
qed

section \<open>Ratings\<close>

lemma add_rating_value_result:
  assumes "py_int rid = Inr n" "find_one (rating_collection db) n = Some r"
  shows "\<exists>db'. add_rating_value db v rid = (db', Inr (mean (rating_values r @ [v])))
     \<and> book_collection db' = book_collection db
     \<and> map fst (rating_collection db') = map fst (rating_collection db)
     \<and> (\<forall>m. m \<noteq> n \<longrightarrow> find_one (rating_collection db') m = find_one (rating_collection db) m)
     \<and> find_one (rating_collection db') n
         = Some (r\<lparr>rating_values := rating_values r @ [v],
                   rating_average := mean (rating_values r @ [v])\<rparr>)"
  using assms
  by (simp add: add_rating_value_def calculate_rating_average_def find_one_update_one
        Let_def mean_def fst_update_one)

lemma valid_payload:
  "1 \<le> v \<Longrightarrow> v \<le> 5 \<Longrightarrow> validate_rating_for_a_book [(''value'', JNum v)] = None"
  by (simp add: validate_rating_for_a_book_def dict_len_def dict_has_def)

lemma post_result:
  assumes "int_of_string bid = Inr n" "find_one (rating_collection db) n = Some r"
    "1 \<le> v" "v \<le> 5"
  shows "\<exists>db'. SpecificRatingsValues_post db bid [(''value'', JNum v)]
            = (db', Inr (Ok_reply (mean (rating_values r @ [v])) 201))
     \<and> book_collection db' = book_collection db
     \<and> (\<forall>m. m \<noteq> n \<longrightarrow> find_one (rating_collection db') m = find_one (rating_collection db) m)
     \<and> find_one (rating_collection db') n
         = Some (r\<lparr>rating_values := rating_values r @ [v],
                   rating_average := mean (rating_values r @ [v])\<rparr>)"
proof -
  have p: "py_int (IdStr bid) = Inr n" using assms(1) by simp
  from add_rating_value_result [OF p assms(2), of v] obtain db' where
    d: "add_rating_value db v (IdStr bid) = (db', Inr (mean (rating_values r @ [v])))"
       "book_collection db' = book_collection db"
       "\<forall>m. m \<noteq> n \<longrightarrow> find_one (rating_collection db') m = find_one (rating_collection db) m"
       "find_one (rating_collection db') n
         = Some (r\<lparr>rating_values := rating_values r @ [v],
                   rating_average := mean (rating_values r @ [v])\<rparr>)"
    by blast
  have "SpecificRatingsValues_post db bid [(''value'', JNum v)]
            = (db', Inr (Ok_reply (mean (rating_values r @ [v])) 201))"
    using assms d(1) by (simp add: SpecificRatingsValues_post_def get_book_rating_def valid_payload)
  with d show ?thesis by blast
qed

lemma rate_seq_result:
  assumes "int_of_string bid = Inr n" "\<forall>v\<in>set vs. 1 \<le> v \<and> v \<le> 5"
    "find_one (rating_collection db) n = Some r"
  shows "find_one (rating_collection (rate_seq db bid vs)) n
         = Some (r\<lparr>rating_values := rating_values r @ vs,
                   rating_average := (if vs = [] then rating_average r
                                      else mean (rating_values r @ vs))\<rparr>)"
  using assms(2,3)
proof (induction vs arbitrary: db r)
  case Nil
  then show ?case by (simp add: rate_seq_def)
next
  case (Cons v vs)
  from Cons.prems have v: "1 \<le> v" "v \<le> 5" by auto
  from post_result [OF assms(1) Cons.prems(2) v] obtain db' where
    d: "SpecificRatingsValues_post db bid [(''value'', JNum v)]
            = (db', Inr (Ok_reply (mean (rating_values r @ [v])) 201))"
       "find_one (rating_collection db') n
         = Some (r\<lparr>rating_values := rating_values r @ [v],
                   rating_average := mean (rating_values r @ [v])\<rparr>)"
    by blast
  have "rate_seq db bid (v # vs) = rate_seq db' bid vs"
    using d(1) by (simp add: rate_seq_def)
  moreover have "\<forall>v\<in>set vs. 1 \<le> v \<and> v \<le> 5" using Cons.prems(1) by simp
  ultimately show ?case
    using Cons.IH [OF _ d(2)] by simp
qed

lemma find_update_first_keep:
  "find p xs = Some x \<Longrightarrow> p (f x) \<Longrightarrow> find p (update_first p f xs) = Some (f x)"
  by (induction xs) (auto split: if_splits)

lemma post1_result:
  assumes "get_book_rating1 club bid = Some r" "1 \<le> v" "v \<le> 5"
  shows "\<exists>club'. SpecificRatingsValues_post1 club bid [(''value'', JNum v)]
            = (club', Inr (Ok_reply (mean (rating_values r @ [v])) 200))
     \<and> books club' = books club
     \<and> get_book_rating1 club' bid
         = Some (r\<lparr>rating_values := rating_values r @ [v],
                   rating_average := mean (rating_values r @ [v])\<rparr>)"
proof -
  have "rating_id r = bid"
    using assms(1) by (auto simp: get_book_rating1_def find_Some_iff)
  then show ?thesis
    using assms
    by (simp add: SpecificRatingsValues_post1_def valid_payload Let_def mean_def
          get_book_rating1_def find_update_first_keep)
qed

lemma rate_seq1_result:
  assumes "\<forall>v\<in>set vs. 1 \<le> v \<and> v \<le> 5" "get_book_rating1 club bid = Some r"
  shows "get_book_rating1 (rate_seq1 club bid vs) bid
         = Some (r\<lparr>rating_values := rating_values r @ vs,
                   rating_average := (if vs = [] then rating_average r
                                      else mean (rating_values r @ vs))\<rparr>)"
  using assms
proof (induction vs arbitrary: club r)
  case Nil
  then show ?case by (simp add: rate_seq1_def)
next
  case (Cons v vs)
  from Cons.prems have v: "1 \<le> v" "v \<le> 5" by auto
  from post1_result [OF Cons.prems(2) v] obtain club' where
    d: "SpecificRatingsValues_post1 club bid [(''value'', JNum v)]
            = (club', Inr (Ok_reply (mean (rating_values r @ [v])) 200))"
       "get_book_rating1 club' bid
         = Some (r\<lparr>rating_values := rating_values r @ [v],
                   rating_average := mean (rating_values r @ [v])\<rparr>)"
    by blast
  have "rate_seq1 club bid (v # vs) = rate_seq1 club' bid vs"
    using d(1) by (simp add: rate_seq1_def)
  moreover have "\<forall>v\<in>set vs. 1 \<le> v \<and> v \<le> 5" using Cons.prems(1) by simp
  ultimately show ?case
    using Cons.IH [OF _ d(2)] by simp
qed


text \<open>
  C3. Appending a value to an existing rating stores the value at the end of the value
  sequence and stores, as the average, the sum of the whole stored sequence divided by
  its length; the same number is returned. Hence after every sequence \<open>vs\<close> of appended
  values (each between 1 and 5, sent as \<open>{"value": v}\<close>) the stored sequence is the old one
  followed by \<open>vs\<close> and, when \<open>vs\<close> is not empty, the stored average is the arithmetic
  mean of that whole sequence. This holds for the persistent version and for the first
  version.
\<close>

theorem stored_average_is_mean_of_all_values:
  "(py_int rid = Inr n \<and> find_one (rating_collection db) n = Some r \<longrightarrow>
      (\<exists>db'. add_rating_value db v rid = (db', Inr (mean (rating_values r @ [v])))
         \<and> find_one (rating_collection db') n
             = Some (r\<lparr>rating_values := rating_values r @ [v],
                       rating_average := mean (rating_values r @ [v])\<rparr>)))
   \<and> (int_of_string bid = Inr n \<and> (\<forall>v\<in>set vs. 1 \<le> v \<and> v \<le> 5)
        \<and> find_one (rating_collection db) n = Some r \<longrightarrow>
        find_one (rating_collection (rate_seq db bid vs)) n
          = Some (r\<lparr>rating_values := rating_values r @ vs,
                    rating_average := (if vs = [] then rating_average r
                                       else mean (rating_values r @ vs))\<rparr>))
   \<and> ((\<forall>v\<in>set vs. 1 \<le> v \<and> v \<le> 5) \<and> get_book_rating1 club bid = Some r1 \<longrightarrow>
        get_book_rating1 (rate_seq1 club bid vs) bid
          = Some (r1\<lparr>rating_values := rating_values r1 @ vs,
                     rating_average := (if vs = [] then rating_average r1
                                        else mean (rating_values r1 @ vs))\<rparr>))"
proof (intro conjI impI)
  assume "py_int rid = Inr n \<and> find_one (rating_collection db) n = Some r"
  then show "\<exists>db'. add_rating_value db v rid = (db', Inr (mean (rating_values r @ [v])))
         \<and> find_one (rating_collection db') n
             = Some (r\<lparr>rating_values := rating_values r @ [v],
                       rating_average := mean (rating_values r @ [v])\<rparr>)"
    using add_rating_value_result [of rid n db r v] by blast
next
  assume "int_of_string bid = Inr n \<and> (\<forall>v\<in>set vs. 1 \<le> v \<and> v \<le> 5)
        \<and> find_one (rating_collection db) n = Some r"
  then show "find_one (rating_collection (rate_seq db bid vs)) n
          = Some (r\<lparr>rating_values := rating_values r @ vs,
                    rating_average := (if vs = [] then rating_average r
                                       else mean (rating_values r @ vs))\<rparr>)"
    using rate_seq_result [of bid n vs db r] by blast
next
  assume "(\<forall>v\<in>set vs. 1 \<le> v \<and> v \<le> 5) \<and> get_book_rating1 club bid = Some r1"
  then show "get_book_rating1 (rate_seq1 club bid vs) bid
          = Some (r1\<lparr>rating_values := rating_values r1 @ vs,
                     rating_average := (if vs = [] then rating_average r1
                                        else mean (rating_values r1 @ vs))\<rparr>)"
    using rate_seq1_result [of vs club bid r1] by blast
qed

lemma int_of_string_1: "int_of_string ''1'' = Inr 1"
  by (simp add: int_of_string_def strip_def is_space_def is_digit_def digit_val_def)

theorem stored_average_is_mean_of_all_values_witness:
  "py_int (IdStr ''1'') = Inr 1
   \<and> find_one (rating_collection example_db) 1 = Some example_rating
   \<and> int_of_string ''1'' = Inr 1
   \<and> list_all (\<lambda>v. 1 \<le> v \<and> v \<le> 5) [5, 4, 5 :: int]
   \<and> get_book_rating1 example_club ''1'' = Some example_rating
   \<and> (\<exists>db'. add_rating_value example_db 5 (IdStr ''1'') = (db', Inr 5)
         \<and> find_one (rating_collection db') 1
             = Some (example_rating\<lparr>rating_values := [5], rating_average := 5\<rparr>))
   \<and> find_one (rating_collection (rate_seq example_db ''1'' [5, 4, 5])) 1
        = Some (example_rating\<lparr>rating_values := [5, 4, 5], rating_average := 14 / 3\<rparr>)
   \<and> get_book_rating1 (rate_seq1 example_club ''1'' [5, 4, 5]) ''1''
        = Some (example_rating\<lparr>rating_values := [5, 4, 5], rating_average := 14 / 3\<rparr>)"
proof -
  have h1: "py_int (IdStr ''1'') = Inr 1" by (simp add: int_of_string_1)
  have h2: "find_one (rating_collection example_db) 1 = Some example_rating"
    by (simp add: example_db_def find_one_def)
  have h3: "\<forall>v\<in>set [5, 4, 5 :: int]. 1 \<le> v \<and> v \<le> 5" by simp
  have h4: "get_book_rating1 example_club ''1'' = Some example_rating"
    by (simp add: get_book_rating1_def example_club_def example_rating_def)
  have v: "rating_values example_rating = []" by (simp add: example_rating_def)
  have m: "mean [5] = 5" "mean [5, 4, 5] = 14 / 3" by (simp_all add: mean_def)
  from stored_average_is_mean_of_all_values
         [where rid = "IdStr ''1''" and n = 1 and db = example_db and r = example_rating
            and v = 5 and bid = "''1''" and vs = "[5, 4, 5]" and club = example_club
            and ?r1.0 = example_rating]
       h1 h2 h3 h4 int_of_string_1
  show ?thesis by (simp add: v m)
qed

section \<open>The ranking\<close>

lemma filter_raising_Inr:
  "filter_raising p xs = Inr ys \<Longrightarrow>
   ys = filter (\<lambda>x. p x = Inr True) xs \<and> (\<forall>x\<in>set xs. \<exists>b. p x = Inr b)"
  by (induction xs arbitrary: ys) (auto split: sum.splits)

lemma filter_raising_total:
  "\<forall>x\<in>set xs. \<exists>b. p x = Inr b \<Longrightarrow> \<exists>ys. filter_raising p xs = Inr ys"
  by (induction xs) (auto split: sum.splits)

lemma map_raising_Inr:
  "map_raising f xs = Inr ys \<Longrightarrow>
   ys = map (\<lambda>x. projr (f x)) xs \<and> (\<forall>x\<in>set xs. \<exists>y. f x = Inr y)"
  by (induction xs arbitrary: ys) (auto split: sum.splits)

lemma map_raising_total:
  "\<forall>x\<in>set xs. \<exists>y. f x = Inr y \<Longrightarrow> \<exists>ys. map_raising f xs = Inr ys"
  by (induction xs) (auto split: sum.splits)

lemma sort_pairs_desc:
  fixes f :: "'b \<Rightarrow> rat"
  assumes "ys = map fst (sort_key (\<lambda>(b, k). - k) (zip xs (map f xs)))"
  shows "set ys = set xs \<and> sorted_wrt (\<ge>) (map f ys)"
proof -
  let ?ps = "map (\<lambda>x. (x, f x)) xs"
  let ?s = "sort_key (\<lambda>(b, k). - k) ?ps"
  have z: "zip xs (map f xs) = ?ps" by (induction xs) auto
  have set_s: "set ?s = set ?ps" by simp
  have snd_s: "\<forall>p\<in>set ?s. snd p = f (fst p)" using set_s by auto
  have "set ys = fst ` set ?ps" using assms z by (simp add: set_s del: set_sort)
  then have s1: "set ys = set xs" by force
  have "sorted (map (\<lambda>(b, k). - k) ?s)" by (rule sorted_sort_key)
  then have "sorted_wrt (\<lambda>p q. snd p \<ge> snd q) ?s"
    by (simp add: sorted_wrt_map case_prod_beta sorted_wrt_iff_nth_less del: sort_key_simps)
  then have "sorted_wrt (\<lambda>p q. f (fst p) \<ge> f (fst q)) ?s"
    using snd_s by (auto elim!: sorted_wrt_mono_rel [rotated])
  then have "sorted_wrt (\<ge>) (map f ys)"
    using assms z by (simp add: sorted_wrt_map)
  with s1 show ?thesis by blast
qed

lemma sorted_by_average_Inr:
  assumes "sorted_by_average rating_of xs = Inr ys"
  shows "set ys = set xs
     \<and> sorted_wrt (\<ge>) (map (\<lambda>b. rating_average (projr (rating_of b))) ys)"
proof -
  let ?k = "\<lambda>book. case rating_of book of Inl e \<Rightarrow> Inl e | Inr r \<Rightarrow> Inr (rating_average r)"
  from assms obtain keys where
    k: "map_raising ?k xs = Inr keys"
       "ys = map fst (sort_key (\<lambda>(book, k). - k) (zip xs keys))"
    by (auto simp: sorted_by_average_def split: sum.splits)
  from map_raising_Inr [OF k(1)] have
    keys: "keys = map (\<lambda>x. projr (?k x)) xs" and ok: "\<forall>x\<in>set xs. \<exists>y. ?k x = Inr y"
    by blast+
  have "keys = map (\<lambda>b. rating_average (projr (rating_of b))) xs"
    unfolding keys using ok by (auto split: sum.splits)
  with k(2) sort_pairs_desc [where ys = ys and xs = xs
                  and f = "\<lambda>b. rating_average (projr (rating_of b))"]
  show ?thesis by simp
qed

lemma sorted_by_average_total:
  assumes "\<forall>x\<in>set xs. \<exists>r. rating_of x = Inr r"
  shows "\<exists>ys. sorted_by_average rating_of xs = Inr ys"
proof -
  let ?k = "\<lambda>book. case rating_of book of Inl e \<Rightarrow> Inl e | Inr r \<Rightarrow> Inr (rating_average r)"
  have "\<forall>x\<in>set xs. \<exists>y. ?k x = Inr y" using assms by (auto split: sum.splits)
  from map_raising_total [OF this] show ?thesis
    by (auto simp: sorted_by_average_def)
qed

lemma top_loop_shape:
  "top_loop ro it bs acc c cur = Inr out \<Longrightarrow>
   \<exists>k\<le>length bs. out = acc @ map (\<lambda>b. \<lparr>top_id = fst (projr (it b)), top_title = snd (projr (it b)),
                                  top_average = rating_average (projr (ro b))\<rparr>) (take k bs)
     \<and> (\<forall>b\<in>set (take k bs). (\<exists>r. ro b = Inr r) \<and> (\<exists>p. it b = Inr p))"
proof (induction bs arbitrary: acc c cur)
  case Nil
  then show ?case by simp
next
  case (Cons b bs)
  let ?E = "\<lambda>b. \<lparr>top_id = fst (projr (it b)), top_title = snd (projr (it b)),
                                  top_average = rating_average (projr (ro b))\<rparr>"
  from Cons.prems obtain r where r: "ro b = Inr r" by (auto split: sum.splits)
  show ?case
  proof (cases "rating_average r \<noteq> cur \<and> c + 1 > 3")
    case True
    then have "out = acc" using Cons.prems r by (simp add: Let_def)
    then show ?thesis by (intro exI [of _ 0]) simp
  next
    case False
    with Cons.prems r obtain i t where it: "it b = Inr (i, t)"
      by (auto simp: Let_def split: sum.splits if_splits)
    let ?c' = "if rating_average r \<noteq> cur then c + 1 else c"
    have "top_loop ro it bs (acc @ [?E b]) ?c' (rating_average r) = Inr out"
      using Cons.prems r it False by (auto simp: Let_def split: if_splits)
    from Cons.IH [OF this] obtain k where
      k: "k \<le> length bs" "out = (acc @ [?E b]) @ map ?E (take k bs)"
         "\<forall>b\<in>set (take k bs). (\<exists>r. ro b = Inr r) \<and> (\<exists>p. it b = Inr p)"
      by blast
    show ?thesis
      using k r it by (intro exI [of _ "Suc k"]) simp
  qed
qed

lemma top_loop_total:
  "\<forall>b\<in>set bs. (\<exists>r. ro b = Inr r) \<and> (\<exists>p. it b = Inr p) \<Longrightarrow>
   \<exists>out. top_loop ro it bs acc c cur = Inr out"
proof (induction bs arbitrary: acc c cur)
  case Nil
  then show ?case by simp
next
  case (Cons b bs)
  then obtain r p where "ro b = Inr r" "it b = Inr p" by auto
  moreover obtain i t where "p = (i, t)" by (cases p)
  ultimately show ?case using Cons.IH Cons.prems by (auto simp: Let_def)
qed

lemma top_loop_includes:
  fixes ro :: "'b \<Rightarrow> error + rating"
  defines "avg \<equiv> \<lambda>b. rating_average (projr (ro b))"
  assumes "top_loop ro it bs acc c cur = Inr out"
    and "sorted_wrt (\<ge>) (cur # map avg bs)"
    and "b \<in> set bs"
    and "c + card ({v \<in> avg ` set bs. v \<ge> avg b} - {cur}) \<le> 3"
  shows "(\<exists>p. it b = Inr p)
     \<and> \<lparr>top_id = fst (projr (it b)), top_title = snd (projr (it b)),
          top_average = avg b\<rparr> \<in> set out"
  using assms(2-)
proof (induction bs arbitrary: acc c cur)
  case Nil
  then show ?case by simp
next
  case (Cons b0 bs)
  let ?E = "\<lambda>b. \<lparr>top_id = fst (projr (it b)), top_title = snd (projr (it b)),
                   top_average = avg b\<rparr>"
  let ?S = "\<lambda>xs. {v \<in> avg ` set xs. v \<ge> avg b}"
  from Cons.prems(1) obtain r where r: "ro b0 = Inr r" by (auto split: sum.splits)
  have a: "avg b0 = rating_average r" using r by (simp add: avg_def)
  have ge: "avg b \<le> avg b0" using Cons.prems(2,3) by auto
  have fin: "finite (?S (b0 # bs))" by simp
  have in_S: "avg b0 \<in> ?S (b0 # bs)" using ge by simp
  have cnt: "(if avg b0 \<noteq> cur then c + 1 else c) \<le> 3"
  proof (cases "avg b0 = cur")
    case True
    then show ?thesis using Cons.prems(4) by simp
  next
    case False
    then have "avg b0 \<in> ?S (b0 # bs) - {cur}" using in_S by simp
    then have "card (?S (b0 # bs) - {cur}) \<ge> 1"
      using fin by (metis One_nat_def Suc_leI card_gt_0_iff empty_iff finite_Diff)
    then show ?thesis using Cons.prems(4) by simp
  qed
  then have nobreak: "\<not> (rating_average r \<noteq> cur \<and> (if rating_average r \<noteq> cur then c + 1 else c) > 3)"
    using a by auto
  with Cons.prems(1) r obtain i t where it: "it b0 = Inr (i, t)"
    by (auto simp: Let_def split: sum.splits if_splits)
  let ?c' = "if rating_average r \<noteq> cur then c + 1 else c"
  have next_loop: "top_loop ro it bs (acc @ [?E b0]) ?c' (avg b0) = Inr out"
    using Cons.prems(1) r it nobreak a by (auto simp: Let_def split: if_splits)
  show ?case
  proof (cases "b = b0")
    case True
    from top_loop_shape [OF next_loop] have "?E b0 \<in> set out" by auto
    with True it show ?thesis by simp
  next
    case False
    then have b_in: "b \<in> set bs" using Cons.prems(3) by simp
    have sorted': "sorted_wrt (\<ge>) (avg b0 # map avg bs)" using Cons.prems(2) by simp
    have le_cur: "\<forall>v\<in>avg ` set (b0 # bs). v \<le> cur" using Cons.prems(2) by auto
    have le_a: "\<forall>v\<in>avg ` set bs. v \<le> avg b0" using Cons.prems(2) by auto
    have bound: "?c' + card (?S bs - {avg b0}) \<le> 3"
    proof (cases "avg b0 = cur")
      case True
      have "?S bs - {avg b0} \<subseteq> ?S (b0 # bs) - {cur}" using True by auto
      then have "card (?S bs - {avg b0}) \<le> card (?S (b0 # bs) - {cur})"
        using fin by (intro card_mono) auto
      then show ?thesis using True a Cons.prems(4) by simp
    next
      case neq: False
      have lt: "avg b0 < cur" using neq le_cur by force
      have sub: "?S bs - {avg b0} \<subseteq> (?S (b0 # bs) - {cur}) - {avg b0}"
        using le_a lt by auto
      have mem: "avg b0 \<in> ?S (b0 # bs) - {cur}" using in_S neq by simp
      have "card (?S bs - {avg b0}) \<le> card ((?S (b0 # bs) - {cur}) - {avg b0})"
        using fin sub by (intro card_mono) auto
      also have "\<dots> = card (?S (b0 # bs) - {cur}) - 1"
        using mem fin by (simp add: card_Diff_singleton)
      finally have "card (?S bs - {avg b0}) + 1 \<le> card (?S (b0 # bs) - {cur})"
        using mem fin by (metis (no_types, lifting) One_nat_def Suc_leI add.commute card_gt_0_iff empty_iff finite_Diff le_diff_conv2 plus_1_eq_Suc)
      then show ?thesis using neq a Cons.prems(4) by simp
    qed
    from Cons.IH [OF next_loop sorted' b_in bound] show ?thesis .
  qed
qed

lemma card_ge_bound:
  fixes A :: "rat set"
  assumes "finite A" "card {v \<in> A. v > x} < 3"
  shows "card {v \<in> A. v \<ge> x} \<le> 3"
proof -
  have "{v \<in> A. v \<ge> x} \<subseteq> insert x {v \<in> A. v > x}" by auto
  then have "card {v \<in> A. v \<ge> x} \<le> card (insert x {v \<in> A. v > x})"
    using assms(1) by (intro card_mono) auto
  also have "\<dots> \<le> Suc (card {v \<in> A. v > x})"
    using assms(1) by (simp add: card_insert_le_m1 card_insert_if)
  finally show ?thesis using assms(2) by simp
qed

lemma top_loop_includes_init:
  fixes ro :: "'b \<Rightarrow> error + rating"
  defines "avg \<equiv> \<lambda>b. rating_average (projr (ro b))"
  assumes run: "top_loop ro it bs [] 0 0 = Inr out"
    and srt: "sorted_wrt (\<ge>) (map avg bs)"
    and mem: "b \<in> set bs"
    and top3: "card {v \<in> avg ` set bs. v > avg b} < 3"
  shows "(\<exists>p. it b = Inr p)
     \<and> \<lparr>top_id = fst (projr (it b)), top_title = snd (projr (it b)),
          top_average = avg b\<rparr> \<in> set out"
proof -
  let ?E = "\<lambda>b. \<lparr>top_id = fst (projr (it b)), top_title = snd (projr (it b)),
                   top_average = avg b\<rparr>"
  let ?S = "\<lambda>xs. {v \<in> avg ` set xs. v \<ge> avg b}"
  have S3: "card (?S bs) \<le> 3"
    using card_ge_bound [of "avg ` set bs" "avg b"] top3 by simp
  from mem obtain b0 bs' where bs: "bs = b0 # bs'" by (cases bs) auto
  from run bs obtain r where r: "ro b0 = Inr r" by (auto split: sum.splits)
  have a: "avg b0 = rating_average r" using r by (simp add: avg_def)
  show ?thesis
  proof (cases "avg b0 = 0")
    case True
    have s0: "sorted_wrt (\<ge>) (0 # map avg bs)" using srt True bs by auto
    have "card (?S bs - {0}) \<le> card (?S bs)" by (intro card_mono) auto
    with S3 have "0 + card (?S bs - {0}) \<le> 3" by simp
    from top_loop_includes [OF run s0 [unfolded avg_def] mem this [unfolded avg_def]]
    show ?thesis by (simp add: avg_def)
  next
    case False
    with run bs r a obtain i t where it: "it b0 = Inr (i, t)"
      by (auto simp: Let_def split: sum.splits if_splits)
    have next_loop: "top_loop ro it bs' ([] @ [?E b0]) 1 (avg b0) = Inr out"
      using run bs r it False a by (auto simp: Let_def avg_def split: if_splits)
    show ?thesis
    proof (cases "b = b0")
      case True
      from top_loop_shape [OF next_loop] have "?E b0 \<in> set out" by auto
      with True it show ?thesis by simp
    next
      case neq: False
      then have b_in: "b \<in> set bs'" using mem bs by simp
      have sorted': "sorted_wrt (\<ge>) (avg b0 # map avg bs')" using srt bs by simp
      have ge: "avg b \<le> avg b0" using srt bs b_in by auto
      have in_S: "avg b0 \<in> ?S bs" using ge bs by simp
      have "?S bs' - {avg b0} \<subseteq> ?S bs - {avg b0}" using bs by auto
      then have "card (?S bs' - {avg b0}) \<le> card (?S bs - {avg b0})"
        by (intro card_mono) auto
      also have "\<dots> = card (?S bs) - 1" using in_S by (simp add: card_Diff_singleton)
      finally have "1 + card (?S bs' - {avg b0}) \<le> 3" using S3 by simp
      from top_loop_includes [OF next_loop [unfolded avg_def] sorted' [unfolded avg_def]
              b_in this [unfolded avg_def]]
      show ?thesis by (simp add: avg_def)
    qed
  qed
qed

lemma top_books_of_spec:
  assumes run: "top_books_of ro it bks = Inr rep"
  shows "\<exists>out. rep = Ok_reply out 200
    \<and> (\<forall>t\<in>set out. \<exists>b\<in>set bks. \<exists>r. ro b = Inr r \<and> 3 \<le> length (rating_values r)
           \<and> it b = Inr (top_id t, top_title t) \<and> top_average t = rating_average r)
    \<and> sorted_wrt (\<ge>) (map top_average out)
    \<and> (\<forall>b\<in>set bks. \<forall>r. ro b = Inr r \<and> 3 \<le> length (rating_values r)
           \<and> card {a. \<exists>b'\<in>set bks. \<exists>r'. ro b' = Inr r' \<and> 3 \<le> length (rating_values r')
                       \<and> a = rating_average r' \<and> rating_average r < a} < 3
         \<longrightarrow> (\<exists>t\<in>set out. it b = Inr (top_id t, top_title t)
                \<and> top_average t = rating_average r))"
proof -
  let ?p = "\<lambda>book. case ro book of Inl e \<Rightarrow> Inl e
                   | Inr r \<Rightarrow> Inr (length (rating_values r) \<ge> 3)"
  let ?avg = "\<lambda>b. rating_average (projr (ro b))"
  let ?E = "\<lambda>b. \<lparr>top_id = fst (projr (it b)), top_title = snd (projr (it b)),
                   top_average = ?avg b\<rparr>"
  from run obtain eligible sorted_books out where
    e: "filter_raising ?p bks = Inr eligible"
    and s: "sorted_by_average ro eligible = Inr sorted_books"
    and l: "top_loop ro it sorted_books [] 0 0 = Inr out"
    and rep: "rep = Ok_reply out 200"
    by (auto simp: top_books_of_def split: sum.splits)
  from filter_raising_Inr [OF e] have
    el: "eligible = filter (\<lambda>x. ?p x = Inr True) bks" by blast
  have el_iff: "b \<in> set eligible \<longleftrightarrow>
      b \<in> set bks \<and> (\<exists>r. ro b = Inr r \<and> 3 \<le> length (rating_values r))" for b
    unfolding el by (auto split: sum.splits)
  from sorted_by_average_Inr [OF s] have
    ss: "set sorted_books = set eligible" and srt: "sorted_wrt (\<ge>) (map ?avg sorted_books)"
    by blast+
  from top_loop_shape [OF l] obtain k where
    k: "k \<le> length sorted_books" "out = map ?E (take k sorted_books)"
       "\<forall>b\<in>set (take k sorted_books). (\<exists>r. ro b = Inr r) \<and> (\<exists>p. it b = Inr p)"
    by auto
  have p1: "\<forall>t\<in>set out. \<exists>b\<in>set bks. \<exists>r. ro b = Inr r \<and> 3 \<le> length (rating_values r)
           \<and> it b = Inr (top_id t, top_title t) \<and> top_average t = rating_average r"
  proof
    fix t assume "t \<in> set out"
    then obtain b where b: "b \<in> set (take k sorted_books)" "t = ?E b" using k(2) by auto
    then have "b \<in> set eligible" using ss by (auto dest: in_set_takeD)
    then obtain r where r: "b \<in> set bks" "ro b = Inr r" "3 \<le> length (rating_values r)"
      using el_iff by blast
    from k(3) b(1) obtain p where "it b = Inr p" by blast
    with b(2) r show "\<exists>b\<in>set bks. \<exists>r. ro b = Inr r \<and> 3 \<le> length (rating_values r)
           \<and> it b = Inr (top_id t, top_title t) \<and> top_average t = rating_average r"
      by (intro bexI [of _ b] exI [of _ r]) auto
  qed
  have "map top_average out = take k (map ?avg sorted_books)"
    using k(2) by (simp add: take_map comp_def)
  then have p2: "sorted_wrt (\<ge>) (map top_average out)"
    using srt by simp
  have p3: "\<forall>b\<in>set bks. \<forall>r. ro b = Inr r \<and> 3 \<le> length (rating_values r)
           \<and> card {a. \<exists>b'\<in>set bks. \<exists>r'. ro b' = Inr r' \<and> 3 \<le> length (rating_values r')
                       \<and> a = rating_average r' \<and> rating_average r < a} < 3
         \<longrightarrow> (\<exists>t\<in>set out. it b = Inr (top_id t, top_title t)
                \<and> top_average t = rating_average r)"
  proof (intro ballI allI impI)
    fix b r
    assume b: "b \<in> set bks"
      and h: "ro b = Inr r \<and> 3 \<le> length (rating_values r)
           \<and> card {a. \<exists>b'\<in>set bks. \<exists>r'. ro b' = Inr r' \<and> 3 \<le> length (rating_values r')
                       \<and> a = rating_average r' \<and> rating_average r < a} < 3"
    have mem: "b \<in> set sorted_books" using b h ss el_iff by blast
    have avg_b: "?avg b = rating_average r" using h by simp
    have "{v \<in> ?avg ` set sorted_books. v > ?avg b}
          = {a. \<exists>b'\<in>set bks. \<exists>r'. ro b' = Inr r' \<and> 3 \<le> length (rating_values r')
                       \<and> a = rating_average r' \<and> rating_average r < a}"
    proof (intro set_eqI iffI)
      fix a assume "a \<in> {v \<in> ?avg ` set sorted_books. v > ?avg b}"
      then obtain b' where b': "b' \<in> set eligible" "a = ?avg b'" "?avg b < a"
        unfolding ss by auto
      from b'(1) obtain r' where "b' \<in> set bks" "ro b' = Inr r'" "3 \<le> length (rating_values r')"
        using el_iff by blast
      with b' avg_b show "a \<in> {a. \<exists>b'\<in>set bks. \<exists>r'. ro b' = Inr r' \<and> 3 \<le> length (rating_values r')
                       \<and> a = rating_average r' \<and> rating_average r < a}"
        by auto
    next
      fix a assume "a \<in> {a. \<exists>b'\<in>set bks. \<exists>r'. ro b' = Inr r' \<and> 3 \<le> length (rating_values r')
                       \<and> a = rating_average r' \<and> rating_average r < a}"
      then obtain b' r' where b': "b' \<in> set bks" "ro b' = Inr r'" "3 \<le> length (rating_values r')"
          "a = rating_average r'" "rating_average r < a"
        by blast
      then have "b' \<in> set eligible" using el_iff by blast
      moreover have "?avg b' = a" using b' by simp
      ultimately show "a \<in> {v \<in> ?avg ` set sorted_books. v > ?avg b}"
        unfolding ss using b'(5) avg_b by force
    qed
    with h have top3: "card {v \<in> ?avg ` set sorted_books. v > ?avg b} < 3" by simp
    from top_loop_includes_init [OF l srt mem top3]
    obtain p where "it b = Inr p" "?E b \<in> set out" by blast
    then show "\<exists>t\<in>set out. it b = Inr (top_id t, top_title t)
                \<and> top_average t = rating_average r"
      using avg_b by (intro bexI [of _ "?E b"]) auto
  qed
  from rep p1 p2 p3 show ?thesis by blast
qed

lemma top_books_of_total:
  assumes "\<forall>b\<in>set bks. (\<exists>r. ro b = Inr r) \<and> (\<exists>p. it b = Inr p)"
  shows "\<exists>out. top_books_of ro it bks = Inr (Ok_reply out 200)"
proof -
  let ?p = "\<lambda>book. case ro book of Inl e \<Rightarrow> Inl e
                   | Inr r \<Rightarrow> Inr (length (rating_values r) \<ge> 3)"
  have "\<forall>x\<in>set bks. \<exists>b. ?p x = Inr b" using assms by (auto split: sum.splits)
  from filter_raising_total [OF this] obtain eligible where
    e: "filter_raising ?p bks = Inr eligible" by blast
  from filter_raising_Inr [OF e] have sub: "set eligible \<subseteq> set bks" by auto
  then have "\<forall>x\<in>set eligible. \<exists>r. ro x = Inr r" using assms by blast
  from sorted_by_average_total [OF this] obtain sorted_books where
    s: "sorted_by_average ro eligible = Inr sorted_books" by blast
  from sorted_by_average_Inr [OF s] sub have "set sorted_books \<subseteq> set bks" by simp
  then have "\<forall>b\<in>set sorted_books. (\<exists>r. ro b = Inr r) \<and> (\<exists>p. it b = Inr p)"
    using assms by blast
  from top_loop_total [OF this] obtain out where
    "top_loop ro it sorted_books [] 0 0 = Inr out" by blast
  with e s show ?thesis by (simp add: top_books_of_def)
qed


lemma rating_of_book_id_title:
  "rating_of_book db book = Inr r \<Longrightarrow> \<exists>p. id_title_of_book book = Inr p"
  by (cases book) (auto simp: rating_of_book_def id_title_of_book_def split: sum.splits)

text \<open>
  C4. Whenever \<open>GET /top\<close> answers, in the persistent and in the first version: every
  line of the output is a book of the catalog whose rating has at least 3 values, with
  that rating's average; the output is ordered by average, descending; and every book
  whose rating has at least 3 values and whose average has fewer than 3 distinct averages
  of such books above it (it is one of the 3 highest distinct averages) has its line in
  the output. The query answers whenever every book of the catalog has a rating. (That
  the output can be longer than 3 is shown by the example after the theorem.)
\<close>

theorem top_books_eligible_sorted_ties_kept:
  "(TopBooks_get db = Inr rep \<longrightarrow>
      (\<exists>out. rep = Ok_reply out 200
         \<and> (\<forall>t\<in>set out. \<exists>book\<in>set (get_books db). \<exists>r.
                rating_of_book db book = Inr r \<and> 3 \<le> length (rating_values r)
                \<and> id_title_of_book book = Inr (top_id t, top_title t)
                \<and> top_average t = rating_average r)
         \<and> sorted_wrt (\<ge>) (map top_average out)
         \<and> (\<forall>book\<in>set (get_books db). \<forall>r.
                rating_of_book db book = Inr r \<and> 3 \<le> length (rating_values r)
                \<and> card {a. \<exists>book'\<in>set (get_books db). \<exists>r'.
                            rating_of_book db book' = Inr r' \<and> 3 \<le> length (rating_values r')
                            \<and> a = rating_average r' \<and> rating_average r < a} < 3
                \<longrightarrow> (\<exists>t\<in>set out. id_title_of_book book = Inr (top_id t, top_title t)
                       \<and> top_average t = rating_average r))))
   \<and> ((\<forall>book\<in>set (get_books db). \<exists>r. rating_of_book db book = Inr r) \<longrightarrow>
        (\<exists>out. TopBooks_get db = Inr (Ok_reply out 200)))
   \<and> (TopBooks_get1 club = Inr rep1 \<longrightarrow>
      (\<exists>out. rep1 = Ok_reply out 200
         \<and> (\<forall>t\<in>set out. \<exists>book\<in>set (books club). \<exists>r.
                rating_of_book1 club book = Inr r \<and> 3 \<le> length (rating_values r)
                \<and> id_title_of_book1 book = Inr (top_id t, top_title t)
                \<and> top_average t = rating_average r)
         \<and> sorted_wrt (\<ge>) (map top_average out)
         \<and> (\<forall>book\<in>set (books club). \<forall>r.
                rating_of_book1 club book = Inr r \<and> 3 \<le> length (rating_values r)
                \<and> card {a. \<exists>book'\<in>set (books club). \<exists>r'.
                            rating_of_book1 club book' = Inr r' \<and> 3 \<le> length (rating_values r')
                            \<and> a = rating_average r' \<and> rating_average r < a} < 3
                \<longrightarrow> (\<exists>t\<in>set out. id_title_of_book1 book = Inr (top_id t, top_title t)
                       \<and> top_average t = rating_average r))))
   \<and> ((\<forall>book\<in>set (books club). \<exists>r. rating_of_book1 club book = Inr r) \<longrightarrow>
        (\<exists>out. TopBooks_get1 club = Inr (Ok_reply out 200)))"
proof (intro conjI impI)
  assume "TopBooks_get db = Inr rep"
  then show "\<exists>out. rep = Ok_reply out 200
         \<and> (\<forall>t\<in>set out. \<exists>book\<in>set (get_books db). \<exists>r.
                rating_of_book db book = Inr r \<and> 3 \<le> length (rating_values r)
                \<and> id_title_of_book book = Inr (top_id t, top_title t)
                \<and> top_average t = rating_average r)
         \<and> sorted_wrt (\<ge>) (map top_average out)
         \<and> (\<forall>book\<in>set (get_books db). \<forall>r.
                rating_of_book db book = Inr r \<and> 3 \<le> length (rating_values r)
                \<and> card {a. \<exists>book'\<in>set (get_books db). \<exists>r'.
                            rating_of_book db book' = Inr r' \<and> 3 \<le> length (rating_values r')
                            \<and> a = rating_average r' \<and> rating_average r < a} < 3
                \<longrightarrow> (\<exists>t\<in>set out. id_title_of_book book = Inr (top_id t, top_title t)
                       \<and> top_average t = rating_average r))"
    unfolding TopBooks_get_def by (rule top_books_of_spec)
next
  assume "\<forall>book\<in>set (get_books db). \<exists>r. rating_of_book db book = Inr r"
  then have "\<forall>b\<in>set (get_books db).
      (\<exists>r. rating_of_book db b = Inr r) \<and> (\<exists>p. id_title_of_book b = Inr p)"
    using rating_of_book_id_title by blast
  then show "\<exists>out. TopBooks_get db = Inr (Ok_reply out 200)"
    unfolding TopBooks_get_def by (rule top_books_of_total)
next
  assume "TopBooks_get1 club = Inr rep1"
  then show "\<exists>out. rep1 = Ok_reply out 200
         \<and> (\<forall>t\<in>set out. \<exists>book\<in>set (books club). \<exists>r.
                rating_of_book1 club book = Inr r \<and> 3 \<le> length (rating_values r)
                \<and> id_title_of_book1 book = Inr (top_id t, top_title t)
                \<and> top_average t = rating_average r)
         \<and> sorted_wrt (\<ge>) (map top_average out)
         \<and> (\<forall>book\<in>set (books club). \<forall>r.
                rating_of_book1 club book = Inr r \<and> 3 \<le> length (rating_values r)
                \<and> card {a. \<exists>book'\<in>set (books club). \<exists>r'.
                            rating_of_book1 club book' = Inr r' \<and> 3 \<le> length (rating_values r')
                            \<and> a = rating_average r' \<and> rating_average r < a} < 3
                \<longrightarrow> (\<exists>t\<in>set out. id_title_of_book1 book = Inr (top_id t, top_title t)
                       \<and> top_average t = rating_average r))"
    unfolding TopBooks_get1_def by (rule top_books_of_spec)
next
  assume "\<forall>book\<in>set (books club). \<exists>r. rating_of_book1 club book = Inr r"
  then have "\<forall>b\<in>set (books club).
      (\<exists>r. rating_of_book1 club b = Inr r) \<and> (\<exists>p. id_title_of_book1 b = Inr p)"
    by (simp add: id_title_of_book1_def)
  then show "\<exists>out. TopBooks_get1 club = Inr (Ok_reply out 200)"
    unfolding TopBooks_get1_def by (rule top_books_of_total)
qed

lemma example_top_db_books: "get_books example_top_db =
   [Doc (example_book_n ''1'' ''A''), Doc (example_book_n ''2'' ''B''),
    Doc (example_book_n ''3'' ''C''), Doc (example_book_n ''4'' ''D''),
    Doc (example_book_n ''5'' ''E''), Doc (example_book_n ''6'' ''F'')]"
  by (simp add: get_books_def find_gt0_def example_top_db_def)

lemma example_top_db_ratings:
  "rating_of_book example_top_db (Doc (example_book_n ''1'' ''A'')) = Inr (example_rating_n ''1'' ''A'' [3, 3, 3])"
  "rating_of_book example_top_db (Doc (example_book_n ''2'' ''B'')) = Inr (example_rating_n ''2'' ''B'' [5, 5, 5])"
  "rating_of_book example_top_db (Doc (example_book_n ''3'' ''C'')) = Inr (example_rating_n ''3'' ''C'' [2, 2, 2])"
  "rating_of_book example_top_db (Doc (example_book_n ''4'' ''D'')) = Inr (example_rating_n ''4'' ''D'' [4, 4, 4])"
  "rating_of_book example_top_db (Doc (example_book_n ''5'' ''E'')) = Inr (example_rating_n ''5'' ''E'' [3, 3, 3])"
  "rating_of_book example_top_db (Doc (example_book_n ''6'' ''F'')) = Inr (example_rating_n ''6'' ''F'' [5, 5])"
  by (simp_all add: rating_of_book_def example_book_n_def get_book_rating_def
        int_of_string_def strip_def is_space_def is_digit_def digit_val_def
        example_top_db_def find_one_def)

lemma example_rating_n_simps:
  "rating_average (example_rating_n i t [3, 3, 3]) = 3"
  "rating_average (example_rating_n i t [5, 5, 5]) = 5"
  "rating_average (example_rating_n i t [2, 2, 2]) = 2"
  "rating_average (example_rating_n i t [4, 4, 4]) = 4"
  "rating_average (example_rating_n i t [5, 5]) = 5"
  "rating_values (example_rating_n i t vs) = vs"
  by (simp_all add: example_rating_n_def mean_def)

lemma example_top_db_above_E:
  "{a. \<exists>book'\<in>set (get_books example_top_db). \<exists>r'.
         rating_of_book example_top_db book' = Inr r' \<and> 3 \<le> length (rating_values r')
         \<and> a = rating_average r'
         \<and> rating_average (example_rating_n ''5'' ''E'' [3, 3, 3]) < a} = {5, 4}"
  by (auto simp: example_top_db_books example_top_db_ratings example_rating_n_simps)

lemma example_top_db_top: "TopBooks_get example_top_db = Inr (Ok_reply
        [\<lparr>top_id = ''2'', top_title = ''B'', top_average = 5\<rparr>,
         \<lparr>top_id = ''4'', top_title = ''D'', top_average = 4\<rparr>,
         \<lparr>top_id = ''1'', top_title = ''A'', top_average = 3\<rparr>,
         \<lparr>top_id = ''5'', top_title = ''E'', top_average = 3\<rparr>] 200)"
  by code_simp

lemma example_top_club_top: "TopBooks_get1 example_top_club = Inr (Ok_reply
        [\<lparr>top_id = ''2'', top_title = ''B'', top_average = 5\<rparr>,
         \<lparr>top_id = ''4'', top_title = ''D'', top_average = 4\<rparr>,
         \<lparr>top_id = ''1'', top_title = ''A'', top_average = 3\<rparr>,
         \<lparr>top_id = ''5'', top_title = ''E'', top_average = 3\<rparr>] 200)"
  by code_simp

text \<open>On the example catalog the two books that share the third highest average are both
  in the output, which has four lines; the book with the fourth average and the book with
  two ratings are not.\<close>

theorem top_books_eligible_sorted_ties_kept_witness:
  "TopBooks_get example_top_db = Inr (Ok_reply
        [\<lparr>top_id = ''2'', top_title = ''B'', top_average = 5\<rparr>,
         \<lparr>top_id = ''4'', top_title = ''D'', top_average = 4\<rparr>,
         \<lparr>top_id = ''1'', top_title = ''A'', top_average = 3\<rparr>,
         \<lparr>top_id = ''5'', top_title = ''E'', top_average = 3\<rparr>] 200)
   \<and> TopBooks_get1 example_top_club = Inr (Ok_reply
        [\<lparr>top_id = ''2'', top_title = ''B'', top_average = 5\<rparr>,
         \<lparr>top_id = ''4'', top_title = ''D'', top_average = 4\<rparr>,
         \<lparr>top_id = ''1'', top_title = ''A'', top_average = 3\<rparr>,
         \<lparr>top_id = ''5'', top_title = ''E'', top_average = 3\<rparr>] 200)
   \<and> list_all (\<lambda>book. \<exists>r. rating_of_book example_top_db book = Inr r)
        (get_books example_top_db)
   \<and> Doc (example_book_n ''5'' ''E'') \<in> set (get_books example_top_db)
   \<and> rating_of_book example_top_db (Doc (example_book_n ''5'' ''E''))
        = Inr (example_rating_n ''5'' ''E'' [3, 3, 3])
   \<and> card {a. \<exists>book'\<in>set (get_books example_top_db). \<exists>r'.
         rating_of_book example_top_db book' = Inr r' \<and> 3 \<le> length (rating_values r')
         \<and> a = rating_average r'
         \<and> rating_average (example_rating_n ''5'' ''E'' [3, 3, 3]) < a} = 2
   \<and> (\<exists>t\<in>set [\<lparr>top_id = ''2'', top_title = ''B'', top_average = 5\<rparr>,
         \<lparr>top_id = ''4'', top_title = ''D'', top_average = 4\<rparr>,
         \<lparr>top_id = ''1'', top_title = ''A'', top_average = 3\<rparr>,
         \<lparr>top_id = ''5'', top_title = ''E'', top_average = 3\<rparr>].
         id_title_of_book (Doc (example_book_n ''5'' ''E'')) = Inr (top_id t, top_title t)
         \<and> top_average t = 3)"
proof -
  note inst = top_books_eligible_sorted_ties_kept
    [where db = example_top_db and club = example_top_club
       and rep = "Ok_reply
        [\<lparr>top_id = ''2'', top_title = ''B'', top_average = 5\<rparr>,
         \<lparr>top_id = ''4'', top_title = ''D'', top_average = 4\<rparr>,
         \<lparr>top_id = ''1'', top_title = ''A'', top_average = 3\<rparr>,
         \<lparr>top_id = ''5'', top_title = ''E'', top_average = 3\<rparr>] 200"
       and ?rep1.0 = "Ok_reply
        [\<lparr>top_id = ''2'', top_title = ''B'', top_average = 5\<rparr>,
         \<lparr>top_id = ''4'', top_title = ''D'', top_average = 4\<rparr>,
         \<lparr>top_id = ''1'', top_title = ''A'', top_average = 3\<rparr>,
         \<lparr>top_id = ''5'', top_title = ''E'', top_average = 3\<rparr>] 200"]
  have all: "list_all (\<lambda>book. \<exists>r. rating_of_book example_top_db book = Inr r)
        (get_books example_top_db)"
    by (simp add: example_top_db_books example_top_db_ratings)
  have mem: "Doc (example_book_n ''5'' ''E'') \<in> set (get_books example_top_db)"
    by (simp add: example_top_db_books)
  have c: "card {a. \<exists>book'\<in>set (get_books example_top_db). \<exists>r'.
         rating_of_book example_top_db book' = Inr r' \<and> 3 \<le> length (rating_values r')
         \<and> a = rating_average r'
         \<and> rating_average (example_rating_n ''5'' ''E'' [3, 3, 3]) < a} = 2"
    unfolding example_top_db_above_E by simp
  from inst example_top_db_top have
    "\<forall>book\<in>set (get_books example_top_db). \<forall>r.
        rating_of_book example_top_db book = Inr r \<and> 3 \<le> length (rating_values r)
        \<and> card {a. \<exists>book'\<in>set (get_books example_top_db). \<exists>r'.
                    rating_of_book example_top_db book' = Inr r' \<and> 3 \<le> length (rating_values r')
                    \<and> a = rating_average r' \<and> rating_average r < a} < 3
        \<longrightarrow> (\<exists>t\<in>set [\<lparr>top_id = ''2'', top_title = ''B'', top_average = 5\<rparr>,
         \<lparr>top_id = ''4'', top_title = ''D'', top_average = 4\<rparr>,
         \<lparr>top_id = ''1'', top_title = ''A'', top_average = 3\<rparr>,
         \<lparr>top_id = ''5'', top_title = ''E'', top_average = 3\<rparr>].
               id_title_of_book book = Inr (top_id t, top_title t)
               \<and> top_average t = rating_average r)"
    by simp
  from this [rule_format, OF mem, of "example_rating_n ''5'' ''E'' [3, 3, 3]"] c
  have "\<exists>t\<in>set [\<lparr>top_id = ''2'', top_title = ''B'', top_average = 5\<rparr>,
         \<lparr>top_id = ''4'', top_title = ''D'', top_average = 4\<rparr>,
         \<lparr>top_id = ''1'', top_title = ''A'', top_average = 3\<rparr>,
         \<lparr>top_id = ''5'', top_title = ''E'', top_average = 3\<rparr>].
         id_title_of_book (Doc (example_book_n ''5'' ''E'')) = Inr (top_id t, top_title t)
         \<and> top_average t = 3"
    by (simp add: example_top_db_ratings example_rating_n_simps)
  with all mem c example_top_db_top example_top_club_top show ?thesis
    by (simp add: example_top_db_ratings)
qed

section \<open>Loan creation\<close>

text \<open>
  For a payload object with string values, on a collection as the service builds it and
  with a database that counts the loans of the member, \<open>validate_loan_addition\<close> answers
  with the error of the first gate that fails, in the order: field set, 13-character
  ISBN, no active loan with this ISBN, fewer than 2 active loans of the member, loan date
  (\<open>validate_fields_fail\<close>, \<open>validate_gates_in_order\<close>), and \<open>POST /loans\<close> answers 422
  without writing when the ISBN is on loan, the member has 2 loans or the date is not a
  date of the calendar (\<open>post_refuses\<close>).
\<close>

lemma days_in_month_le: "days_in_month y m \<le> 31"
  by (simp add: days_in_month_def)

lemma date_check_iff:
  "date_pattern_match s \<and> (\<exists>ymd. strptime_Ymd s = Inr ymd) \<longleftrightarrow> calendar_date s"
proof
  assume a: "date_pattern_match s \<and> (\<exists>ymd. strptime_Ymd s = Inr ymd)"
  then have len: "length s = 10"
    by (auto simp: strptime_Ymd_def Let_def split: if_splits)
  with a have "date_shape s" by (auto simp: date_pattern_match_def)
  with a show "calendar_date s"
    by (auto simp: calendar_date_def strptime_Ymd_def Let_def split: if_splits)
next
  assume c: "calendar_date s"
  then have sh: "date_shape s" by (simp add: calendar_date_def)
  then have len: "length s = 10" by (simp add: date_shape_def)
  from c have d: "digits_value (take 2 (drop 8 s)) \<le> 31"
    using days_in_month_le [of "digits_value (take 4 s)" "digits_value (take 2 (drop 5 s))"]
    by (simp add: calendar_date_def Let_def)
  from c sh len d show "date_pattern_match s \<and> (\<exists>ymd. strptime_Ymd s = Inr ymd)"
    by (auto simp: date_pattern_match_def calendar_date_def strptime_Ymd_def Let_def)
qed

lemma py_eq_JStr: "py_eq x (JStr s) = (x = JStr s)"
  by (cases x) auto

lemma any_isbn_wf:
  assumes "list_all (\<lambda>e. \<exists>l. e = Doc l) es"
  shows "any_raising (\<lambda>loan. case loan_getitem loan ''ISBN'' of
                                   Inl e \<Rightarrow> Inl e
                                 | Inr x \<Rightarrow> Inr (py_eq x (JStr isbn))) es
         = Inr (JStr isbn \<in> set (map loan_ISBN
                  (concat (map (\<lambda>e. case e of Counter k \<Rightarrow> [] | Doc l \<Rightarrow> [l]) es))))"
  using assms by (induction es) (auto simp: py_eq_JStr)

lemma wf_get_loans:
  "wf_collection c \<Longrightarrow> list_all (\<lambda>e. \<exists>l. e = Doc l) (get_loans c)"
  by (induction c) (auto simp: wf_collection_def get_loans_def find_gt0_def split: entry.splits)

lemma count_equal_member_wf:
  "wf_collection c \<Longrightarrow>
   count_equal_member c m
     = Inr (length (filter (\<lambda>l. loan_memberName l = m) (active_loans c)))"
  by (induction c)
     (auto simp: wf_collection_def count_equal_member_def active_loans_def get_loans_def
        find_gt0_def split: entry.splits)

lemma validate_fields_fail:
  assumes "\<not> gate_fields p"
  shows "validate_loan_addition count_documents str_of c (JObj p)
     = Inr (Some (Error_reply ''Unprocessable content - check validity of fields'' 422))"
  unfolding validate_loan_addition_def Let_def
  using assms
  by (auto simp: gate_fields_def dict_len_def dict_has_def LOAN_REQUIRED_FIELDS_def)

lemma validate_strings:
  assumes gf: "gate_fields p"
    and f: "map_of p ''ISBN'' = Some (JStr isbn)" "map_of p ''memberName'' = Some (JStr m)"
       "map_of p ''loanDate'' = Some (JStr d)"
    and any: "any_raising (\<lambda>loan. case loan_getitem loan ''ISBN'' of
                                   Inl e \<Rightarrow> Inl e
                                 | Inr x \<Rightarrow> Inr (py_eq x (JStr isbn))) (get_loans c)
         = Inr on_loan"
    and cm: "count_documents c (JStr m) = Inr cnt"
  shows "validate_loan_addition count_documents str_of c (JObj p) =
     (if length isbn \<noteq> 13 then Inr (Some (Error_reply ''Invalid ISBN'' 422))
      else if on_loan
      then Inr (Some (Error_reply ''This book is already on loan'' 422))
      else if cnt \<ge> 2
      then Inr (Some (Error_reply
                 (''Too many books on loan for '' @ str_of (JStr m) @ ''.'') 422))
      else if \<not> date_pattern_match d
      then Inr (Some (Error_reply ''Invalid date format, should be YYYY-MM-DD'' 422))
      else (case strptime_Ymd d of
              Inl e \<Rightarrow> Inr (Some (Error_reply ''Invalid date'' 422))
            | Inr ymd \<Rightarrow> Inr None))"
proof -
  have g: "dict_len p = 3" "map_of p ''memberName'' \<noteq> None" "map_of p ''ISBN'' \<noteq> None"
    "map_of p ''loanDate'' \<noteq> None"
    using gf by (simp_all add: gate_fields_def dict_has_def)
  show ?thesis
    unfolding validate_loan_addition_def Let_def
    using g f any cm
    by (simp add: dict_len_def LOAN_REQUIRED_FIELDS_def loan_count_of_member_def
          match_date_pattern_def strptime_value_def)
qed

lemma validate_gates_in_order:
  assumes wf: "wf_collection c" and gf: "gate_fields p"
    and f: "map_of p ''ISBN'' = Some (JStr isbn)" "map_of p ''memberName'' = Some (JStr m)"
       "map_of p ''loanDate'' = Some (JStr d)"
    and cm: "count_documents c (JStr m)
             = Inr (length (filter (\<lambda>l. loan_memberName l = JStr m) (active_loans c)))"
  shows "validate_loan_addition count_documents str_of c (JObj p) =
     (if length isbn \<noteq> 13 then Inr (Some (Error_reply ''Invalid ISBN'' 422))
      else if JStr isbn \<in> set (map loan_ISBN (active_loans c))
      then Inr (Some (Error_reply ''This book is already on loan'' 422))
      else if 2 \<le> length (filter (\<lambda>l. loan_memberName l = JStr m) (active_loans c))
      then Inr (Some (Error_reply
                 (''Too many books on loan for '' @ str_of (JStr m) @ ''.'') 422))
      else if \<not> calendar_date d
      then Inr (Some (Error_reply
                 (if date_pattern_match d then ''Invalid date''
                  else ''Invalid date format, should be YYYY-MM-DD'') 422))
      else Inr None)"
proof -
  have any: "any_raising (\<lambda>loan. case loan_getitem loan ''ISBN'' of
                                   Inl e \<Rightarrow> Inl e
                                 | Inr x \<Rightarrow> Inr (py_eq x (JStr isbn))) (get_loans c)
         = Inr (JStr isbn \<in> set (map loan_ISBN (active_loans c)))"
    using any_isbn_wf [OF wf_get_loans [OF wf]] by (simp add: active_loans_def)
  have date: "(if \<not> date_pattern_match d
      then Inr (Some (Error_reply ''Invalid date format, should be YYYY-MM-DD'' 422))
      else (case strptime_Ymd d of
              Inl e \<Rightarrow> Inr (Some (Error_reply ''Invalid date'' 422))
            | Inr ymd \<Rightarrow> Inr None))
    = (if \<not> calendar_date d
      then Inr (Some (Error_reply
                 (if date_pattern_match d then ''Invalid date''
                  else ''Invalid date format, should be YYYY-MM-DD'') 422))
      else (Inr None :: error + 'a reply option))"
    using date_check_iff [of d] by (cases "strptime_Ymd d") auto
  show ?thesis
    unfolding validate_strings [where count_documents = count_documents and c = c, OF gf f any cm]
      date ..
qed

lemma post_refuses:
  assumes wf: "wf_collection c" and gf: "gate_fields p"
    and f: "map_of p ''ISBN'' = Some (JStr isbn)" "map_of p ''memberName'' = Some (JStr m)"
       "map_of p ''loanDate'' = Some (JStr d)"
    and cm: "count_documents c (JStr m)
             = Inr (length (filter (\<lambda>l. loan_memberName l = JStr m) (active_loans c)))"
    and refuse: "JStr isbn \<in> set (map loan_ISBN (active_loans c))
         \<or> 2 \<le> length (filter (\<lambda>l. loan_memberName l = JStr m) (active_loans c))
         \<or> \<not> calendar_date d"
  shows "\<exists>msg. Loans_post count_documents str_of check c (JObj p)
           = (c, Inr (Error_reply msg 422))"
proof -
  have ne: "py_truthy (JObj p)" using f(1) by auto
  have "\<exists>msg. validate_loan_addition count_documents str_of c (JObj p)
          = Inr (Some (Error_reply msg 422 :: string reply))"
    unfolding validate_gates_in_order
        [where count_documents = count_documents and c = c, OF wf gf f cm]
    using refuse by auto
  then show ?thesis using ne by (auto simp: Loans_post_def)
qed

lemma post_not_found:
  assumes "py_truthy p"
    "validate_loan_addition count_documents str_of c p = Inr (None :: string reply option)"
    "py_getitem p ''ISBN'' = Inr isbn" "check isbn = Inr resp"
    "response_json resp = Inr j" "py_len j = Inr n" "n = 0 \<or> status_code resp \<noteq> 200"
  shows "Loans_post count_documents str_of check c p
         = (c, Inr (Error_reply ''book not found in the library'' 404))"
  using assms by (auto simp: Loans_post_def)

text \<open>
  C2. After the five gates, \<open>POST /loans\<close> asks the book service and calls \<open>.json()\<close> on the
  answer before it looks at the status code. When the answer carries a JSON array, object
  or string and the status is not 200 or the body is empty, the reply is 404 and nothing
  is written (\<open>post_not_found\<close>). But an answer whose status is not 200 and whose body is
  not JSON, such as the error page of a failing server, ends the request with the
  exception of \<open>.json()\<close> instead of the 404 reply; the collection is left as it was.
\<close>

theorem loan_post_error_page_raises:
  "py_truthy loan_payload
   \<and> validate_loan_addition count_documents str_of c loan_payload
       = Inr (None :: string reply option)
   \<and> py_getitem loan_payload ''ISBN'' = Inr isbn
   \<and> check_if_in_library isbn = Inr book_response
   \<and> status_code book_response \<noteq> 200
   \<and> content book_response = None
   \<longrightarrow> Loans_post count_documents str_of check_if_in_library c loan_payload
       = (c, Inl JSONDecodeError)"
  by (simp add: Loans_post_def response_json_def)

lemma example_payload_ok_valid:
  "validate_loan_addition count_equal_member example_str_of example_loans payload_ok
   = Inr (None :: string reply option)"
  by code_simp

theorem loan_post_error_page_raises_witness:
  "py_truthy payload_ok
   \<and> validate_loan_addition count_equal_member example_str_of example_loans payload_ok
       = Inr (None :: string reply option)
   \<and> py_getitem payload_ok ''ISBN'' = Inr (JStr ''9780201633610'')
   \<and> catalog_error_page (JStr ''9780201633610'') = Inr \<lparr>status_code = 500, content = None\<rparr>
   \<and> Loans_post count_equal_member example_str_of catalog_error_page example_loans payload_ok
       = (example_loans, Inl JSONDecodeError)"
proof -
  have h1: "py_truthy payload_ok" by (simp add: payload_ok_def)
  have h2: "py_getitem payload_ok ''ISBN'' = Inr (JStr ''9780201633610'')"
    by (simp add: payload_ok_def)
  have h3: "catalog_error_page (JStr ''9780201633610'')
            = Inr \<lparr>status_code = 500, content = None\<rparr>"
    by (simp add: catalog_error_page_def)
  from loan_post_error_page_raises
         [of payload_ok count_equal_member example_str_of example_loans
             "JStr ''9780201633610''" catalog_error_page
             "\<lparr>status_code = 500, content = None\<rparr>"]
       h1 h2 h3 example_payload_ok_valid
  show ?thesis by simp
qed

text \<open>
  C5. \<open>validate_loan_addition\<close> applies its gates in the stated order, but it never checks
  that the values of the payload are strings (the validation of a new book does, with
  \<open>isinstance\<close>). A payload with exactly the three required fields whose ISBN is a number
  passes the first gate and then raises TypeError in \<open>len(loan_payload["ISBN"])\<close>,
  whatever the loans of the member are: the request ends with an unhandled exception,
  not with a client error. The collection is left as it was.
\<close>

theorem loan_post_numeric_isbn_raises:
  "gate_fields p \<and> map_of p ''ISBN'' = Some (JNum n)
   \<longrightarrow> validate_loan_addition count_documents str_of c (JObj p)
         = (Inl TypeError :: error + string reply option)
     \<and> Loans_post count_documents str_of check_if_in_library c (JObj p) = (c, Inl TypeError)"
proof (intro impI)
  assume a: "gate_fields p \<and> map_of p ''ISBN'' = Some (JNum n)"
  then have ne: "p \<noteq> []" by auto
  have v: "validate_loan_addition count_documents str_of c (JObj p)
         = (Inl TypeError :: error + string reply option)"
    unfolding validate_loan_addition_def Let_def
    using a by (auto simp: gate_fields_def dict_len_def dict_has_def LOAN_REQUIRED_FIELDS_def)
  then show "validate_loan_addition count_documents str_of c (JObj p)
         = (Inl TypeError :: error + string reply option)
     \<and> Loans_post count_documents str_of check_if_in_library c (JObj p) = (c, Inl TypeError)"
    using ne by (simp add: Loans_post_def)
qed

lemma example_loans_active:
  "active_loans example_loans =
     [example_loan_n ''1'' ''9780134685991'' ''alice'',
      example_loan_n ''2'' ''9780262033848'' ''alice'']"
  by (simp add: active_loans_def get_loans_def find_gt0_def example_loans_def)

theorem loan_post_numeric_isbn_raises_witness:
  "gate_fields [(''memberName'', JStr ''alice''), (''ISBN'', JNum 9780201633610),
                (''loanDate'', JStr ''2024-01-15'')]
   \<and> map_of [(''memberName'', JStr ''alice''), (''ISBN'', JNum 9780201633610),
              (''loanDate'', JStr ''2024-01-15'')] ''ISBN'' = Some (JNum 9780201633610)
   \<and> 2 \<le> length (filter (\<lambda>l. loan_memberName l = JStr ''alice'')
                       (active_loans example_loans))
   \<and> Loans_post count_equal_member example_str_of catalog_found example_loans
         payload_numeric_isbn
       = (example_loans, Inl TypeError)"
proof -
  let ?p = "[(''memberName'', JStr ''alice''), (''ISBN'', JNum 9780201633610),
             (''loanDate'', JStr ''2024-01-15'')]"
  have h1: "gate_fields ?p" by (simp add: gate_fields_def dict_len_def dict_has_def)
  have h2: "map_of ?p ''ISBN'' = Some (JNum 9780201633610)" by simp
  have h3: "2 \<le> length (filter (\<lambda>l. loan_memberName l = JStr ''alice'')
                            (active_loans example_loans))"
    by (simp add: example_loans_active example_loan_n_def)
  from loan_post_numeric_isbn_raises
         [of ?p 9780201633610 count_equal_member example_str_of example_loans catalog_found]
       h1 h2 h3
  show ?thesis by (simp add: payload_numeric_isbn_def)
qed

end
